theory Spec2Isabelle
  imports Complex_Main "HOL-Library.Word"
begin

unbundle bit_operations_syntax

section \<open>C strings and the C library functions the parsers call\<close>

text \<open>
  A C string is the list of its characters before the terminating NUL. A pointer into
  the string is the remaining suffix; reading through a pointer that stands at the end of
  the list reads the NUL. A list that holds a NUL character is read by every function
  below as C reads the memory: as a string that ends there.
\<close>

definition deref :: "string \<Rightarrow> char" where
  "deref s = (case s of [] \<Rightarrow> CHR 0x00 | c # _ \<Rightarrow> c)"

text \<open>\<open>isspace\<close> and \<open>isdigit\<close> of the C library, in the "C" locale.\<close>

definition isspace :: "char \<Rightarrow> bool" where
  "isspace c = (c = CHR '' '' \<or> c = CHR 0x09 \<or> c = CHR 0x0A \<or> c = CHR 0x0B
                \<or> c = CHR 0x0C \<or> c = CHR 0x0D)"

definition isdigit :: "char \<Rightarrow> bool" where
  "isdigit c = (48 \<le> (of_char c :: nat) \<and> (of_char c :: nat) \<le> 57)"

definition digit_val :: "char \<Rightarrow> nat" where
  "digit_val c = of_char c - 48"

definition dec_val :: "string \<Rightarrow> nat" where
  "dec_val ds = foldl (\<lambda>a c. 10 * a + digit_val c) 0 ds"

text \<open>
  \<open>unsigned long\<close> and \<open>long\<close> are 64 bits wide, as on the LP64 platforms the engine
  is built for.
\<close>

definition ULONG_MAX :: nat where
  "ULONG_MAX = 2 ^ 64 - 1"

definition LONG_MAX :: int where
  "LONG_MAX = 2 ^ 63 - 1"

definition LONG_MIN :: int where
  "LONG_MIN = - (2 ^ 63)"

text \<open>
  The subject sequence of \<open>strtoul\<close> and \<open>strtol\<close> in base 10: white space, an optional
  sign, decimal digits. \<open>None\<close> when there is no digit; otherwise whether the sign was a
  minus, the value of the digits, and the rest of the string.
\<close>

definition scan_number :: "string \<Rightarrow> (bool \<times> nat \<times> string) option" where
  "scan_number s =
     (let t = dropWhile isspace s;
          u = (if deref t = CHR ''-'' \<or> deref t = CHR ''+'' then tl t else t)
      in if takeWhile isdigit u = [] then None
         else Some (deref t = CHR ''-'', dec_val (takeWhile isdigit u), dropWhile isdigit u))"

text \<open>
  \<open>strtoul(s, &end, 10)\<close>: the value and the end pointer. No digits: 0, and the end
  pointer is \<open>s\<close> itself. A value beyond \<open>ULONG_MAX\<close> gives \<open>ULONG_MAX\<close>; a minus sign
  negates in the unsigned type.
\<close>

definition strtoul :: "string \<Rightarrow> nat \<times> string" where
  "strtoul s =
     (case scan_number s of
        None \<Rightarrow> (0, s)
      | Some (neg, v, rest) \<Rightarrow>
          (if ULONG_MAX < v then ULONG_MAX
           else if neg then (2 ^ 64 - v) mod 2 ^ 64 else v, rest))"

text \<open>\<open>strtol(s, &end, 10)\<close>: as above, clamped to \<open>LONG_MIN .. LONG_MAX\<close>.\<close>

definition strtol :: "string \<Rightarrow> int \<times> string" where
  "strtol s =
     (case scan_number s of
        None \<Rightarrow> (0, s)
      | Some (neg, v, rest) \<Rightarrow>
          (let i = (if neg then - int v else int v)
           in if LONG_MAX < i then LONG_MAX else if i < LONG_MIN then LONG_MIN else i, rest))"

text \<open>The conversion of a \<open>long\<close> to the 32-bit \<open>int\<close> of a rectangle's field.\<close>

definition int_of_long :: "int \<Rightarrow> int" where
  "int_of_long v = sint (word_of_int v :: 32 word)"

text \<open>\<open>printf\<close>'s conversions \<open>%d\<close> and \<open>%+d\<close>.\<close>

definition digit_char :: "nat \<Rightarrow> char" where
  "digit_char d = char_of (48 + d)"

fun dec :: "nat \<Rightarrow> string" where
  "dec n = (if n < 10 then [digit_char n] else dec (n div 10) @ [digit_char (n mod 10)])"

declare dec.simps [simp del]

definition fmt_d :: "int \<Rightarrow> string" where
  "fmt_d i = (if i < 0 then CHR ''-'' # dec (nat (- i)) else dec (nat i))"

definition fmt_plus_d :: "int \<Rightarrow> string" where
  "fmt_plus_d i = (if i < 0 then CHR ''-'' # dec (nat (- i)) else CHR ''+'' # dec (nat i))"

section \<open>Data of the module\<close>

text \<open>
  The three \<open>changed\<close> callbacks of the module, as the values a variable's \<open>changed\<close>
  pointer takes.
\<close>

datatype changed_cb = vid_geometry_changed | vid_fullscreen_changed | vid_modelist_changed

text \<open>
  Modelled from the spec: \<open>cvar_t\<close>, declared in a header that is not among the sources.
  A configuration variable is "a named textual configuration value with optional
  integer/float projections"; the members are those the module reads or writes. A
  pointer to a variable is an option, \<open>None\<close> for NULL.
\<close>

record cvar_t =
  cv_name :: string
  cv_string :: string
  cv_integer :: int
  cv_value :: real
  cv_changed :: "changed_cb option"

text \<open>
  Modelled from the spec: \<open>vrect_t\<close>, declared in a header that is not among the sources:
  the rectangle \<open>(x, y, width, height)\<close>, whose members \<open>VID_SetGeometry\<close> prints with \<open>%d\<close>.
\<close>

record vrect_t =
  rc_x :: int
  rc_y :: int
  rc_width :: int
  rc_height :: int

text \<open>
  Modelled from the spec: \<open>Q_isspace\<close>, the engine's own white-space test (mode lists are
  "whitespace-separated"): the six ASCII white-space characters.
\<close>

definition Q_isspace :: "char \<Rightarrow> bool" where
  "Q_isspace c = (c = CHR '' '' \<or> c = CHR 0x0C \<or> c = CHR 0x0A \<or> c = CHR 0x0D
                  \<or> c = CHR 0x09 \<or> c = CHR 0x0B)"

text \<open>
  Modelled from the spec: \<open>Q_snprintf(buffer, size, ...)\<close> keeps at most \<open>size - 1\<close>
  characters of the formatted text.
\<close>

definition Q_snprintf :: "nat \<Rightarrow> string \<Rightarrow> string" where
  "Q_snprintf n text = take (n - 1) text"

text \<open>
  Calls that leave the module are recorded, in order, with their arguments. A printing
  call is recorded with its format string and the values formatted, a call through a
  pointer of the driver or of the renderer under the pointer's name.
\<close>

datatype print_arg = ArgD int | ArgLU nat | ArgS string | ArgNULL

datatype from_t = FROM_CODE

text \<open>
  Modelled from the spec: the flags of configuration variables ("archived, read-only,
  triggers-refresh, triggers-file-reload") and the renderer's allocation tag, macros of
  headers that are not among the sources. A mask of flags is the list or set of the
  flags whose bit is set.
\<close>

datatype cvar_flag = CVAR_ARCHIVE | CVAR_REFRESH | CVAR_ROM | CVAR_FILES

datatype memtag_t = TAG_RENDERER

datatype call =
    Com_DPrintf string "print_arg list"
  | Com_Printf string "print_arg list"
  | Com_SetLastError string
  | Com_Error_ERR_FATAL string
  | Cvar_Get string string "cvar_flag list"
  | Cvar_Set string string
  | Cvar_SetByVar string string from_t
  | Cvar_Reset string
  | R_RegisterFunctionsGL
  | R_RegisterFunctionsRTX
  | vid_drivers_probe "string option"
  | vid_pump_events
  | vid_set_mode
  | vid_get_mode_list
  | R_Init bool
  | R_Shutdown bool
  | CL_RestartRefresh bool
  | Z_Free
  | Z_LeakTest memtag_t
  | Cmd_AddCommand string
  | Cmd_RemoveCommand string
  | FX_Init | V_Init | SCR_Init | UI_Init
  | R_ClearDebugLines | R_InitDebugText
  | SCR_RegisterMedia | Con_RegisterMedia
  | V_Shutdown | SCR_Shutdown | UI_Shutdown

section \<open>Helper functions: the parsers\<close>

text \<open>
  One token of the mode list (the body of the loop of \<open>VID_GetFullscreen\<close> up to the
  comparison of the counter): \<open>None\<close> where the source prints "Mode %d is malformed",
  otherwise \<open>w\<close>, \<open>h\<close>, \<open>freq\<close>, \<open>depth\<close> and the pointer after the token.
\<close>

definition parse_mode :: "string \<Rightarrow> (nat \<times> nat \<times> nat \<times> nat \<times> string) option" where
  "parse_mode s =
     (if take 7 s = ''desktop'' then
        (let s1 = drop 7 s
         in if deref s1 \<noteq> CHR 0x00 \<and> \<not> Q_isspace (deref s1) then None
            else Some (0, 0, 0, 0, s1))
      else
        (let (w, s1) = strtoul s
         in if deref s1 \<noteq> CHR ''x'' \<and> deref s1 \<noteq> CHR ''X'' then None
            else
              (let (h, s2) = strtoul (tl s1)
               in if deref s2 = CHR ''@'' then
                    (let (freq, s3) = strtoul (tl s2)
                     in if deref s3 = CHR '':'' then
                          (let (depth, s4) = strtoul (tl s3) in Some (w, h, freq, depth, s4))
                        else Some (w, h, freq, 0, s3))
                  else if deref s2 = CHR '':'' then
                    (let (depth, s3) = strtoul (tl s2)
                     in if deref s3 = CHR ''@'' then
                          (let (freq, s4) = strtoul (tl s3) in Some (w, h, freq, depth, s4))
                        else Some (w, h, 0, depth, s3))
                  else Some (w, h, 0, 0, s2))))"

lemma scan_number_length:
  "scan_number s = Some (neg, v, rest) \<Longrightarrow> length rest \<le> length s"
proof -
  assume a: "scan_number s = Some (neg, v, rest)"
  define t where "t = dropWhile isspace s"
  define u where "u = (if deref t = CHR ''-'' \<or> deref t = CHR ''+'' then tl t else t)"
  from a have "rest = dropWhile isdigit u"
    unfolding scan_number_def Let_def t_def [symmetric] u_def [symmetric]
    by (simp split: if_splits)
  moreover have "length (dropWhile isdigit u) \<le> length u"
    by (rule length_dropWhile_le)
  moreover have "length u \<le> length t"
    by (simp add: u_def)
  moreover have "length t \<le> length s"
    unfolding t_def by (rule length_dropWhile_le)
  ultimately show ?thesis by simp
qed

lemma strtoul_length: "strtoul s = (v, rest) \<Longrightarrow> length rest \<le> length s"
  by (auto simp: strtoul_def split: option.splits dest: scan_number_length)

lemma strtol_length: "strtol s = (v, rest) \<Longrightarrow> length rest \<le> length s"
  by (auto simp: strtol_def Let_def split: option.splits dest: scan_number_length)

lemma deref_nonempty: "deref s \<noteq> CHR 0x00 \<Longrightarrow> s \<noteq> []"
  by (auto simp: deref_def)

lemma length_tl_less: "s \<noteq> [] \<Longrightarrow> length (tl s) < length s"
  by (cases s) auto

lemma strtoul_snd_length: "length (snd (strtoul s)) \<le> length s"
  using strtoul_length [of s "fst (strtoul s)" "snd (strtoul s)"] by simp

lemma strtoul_tl_snd_length: "length (snd (strtoul (tl s))) \<le> length s"
  using strtoul_snd_length [of "tl s"] by simp

lemma parse_mode_shorter:
  assumes "parse_mode s = Some (w, h, freq, depth, rest)"
  shows "length rest < length s"
proof (cases "take 7 s = ''desktop''")
  case True
  then have "length (take 7 s) = 7" by simp
  then have "7 \<le> length s" by simp
  moreover from assms True have "rest = drop 7 s"
    by (simp add: parse_mode_def Let_def split: if_splits)
  ultimately show ?thesis by simp
next
  case False
  define s1 where "s1 = snd (strtoul s)"
  define s2 where "s2 = snd (strtoul (tl s1))"
  define s3 where "s3 = snd (strtoul (tl s2))"
  define s4 where "s4 = snd (strtoul (tl s3))"
  from assms False have x: "deref s1 = CHR ''x'' \<or> deref s1 = CHR ''X''"
    by (auto simp: parse_mode_def Let_def s1_def split_beta split: if_splits)
  then have "s1 \<noteq> []" by (auto simp: deref_def)
  then have "length (tl s1) < length s1" by (rule length_tl_less)
  moreover have "length s2 \<le> length (tl s1)"
    unfolding s2_def by (rule strtoul_snd_length)
  moreover have "length s1 \<le> length s"
    unfolding s1_def by (rule strtoul_snd_length)
  ultimately have l2: "length s2 < length s" by simp
  have l3: "length s3 \<le> length s2"
    unfolding s3_def by (rule strtoul_tl_snd_length)
  have l4: "length s4 \<le> length s3"
    unfolding s4_def by (rule strtoul_tl_snd_length)
  from assms False x have "rest = s2 \<or> rest = s3 \<or> rest = s4"
    unfolding parse_mode_def Let_def split_beta s1_def [symmetric] s2_def [symmetric]
      s3_def [symmetric] s4_def [symmetric]
    by (simp split: if_splits)
  with l2 l3 l4 show ?thesis by auto
qed

text \<open>
  The loop of \<open>VID_GetFullscreen\<close>: \<open>mode\<close> counts the tokens from 1, \<open>sel\<close> is
  \<open>vid_fullscreen->integer\<close>. Every round moves the pointer forward, so the loop ends.
  The counter is an integer without overflow: it grows by one for a token of at least
  one character (\<open>walk_modes_counter\<close> below), so the \<open>int\<close> of the source does not
  overflow on a list of fewer than \<open>2^31 - 1\<close> characters.
\<close>

datatype mode_walk = Malformed int | Not_found | Selected nat nat nat nat

function walk_modes :: "int \<Rightarrow> int \<Rightarrow> string \<Rightarrow> mode_walk" where
  "walk_modes sel mode s =
     (case parse_mode s of
        None \<Rightarrow> Malformed mode
      | Some (w, h, freq, depth, s1) \<Rightarrow>
          if mode = sel then Selected w h freq depth
          else if deref (dropWhile Q_isspace s1) = CHR 0x00 then Not_found
          else walk_modes sel (mode + 1) (dropWhile Q_isspace s1))"
  by pat_completeness auto
termination
proof (relation "measure (\<lambda>(sel, mode, s). length s)")
  show "wf (measure (\<lambda>(sel, mode, s). length s))" by simp
next
  fix sel mode :: int and s s1 :: string and w h freq depth :: nat and x2 y ya yb yc
  assume "parse_mode s = Some x2" "(w, y) = x2" "(h, ya) = y" "(freq, yb) = ya"
    "(depth, s1) = yb"
  then have "parse_mode s = Some (w, h, freq, depth, s1)" by simp
  then have "length s1 < length s" by (rule parse_mode_shorter)
  moreover have "length (dropWhile Q_isspace s1) \<le> length s1"
    by (rule length_dropWhile_le)
  ultimately show "((sel, mode + 1, dropWhile Q_isspace s1), sel, mode, s)
      \<in> measure (\<lambda>(sel, mode, s). length s)"
    by simp
qed

declare walk_modes.simps [simp del]

text \<open>
  Two notions the properties of \<open>VID_GetFullscreen\<close> speak of, in the terms of its own
  loop. \<open>token_start k s\<close> is where the token of index \<open>k\<close> (from 0) begins, when the \<open>k\<close>
  tokens before it parse and the list goes on after them.
\<close>

fun token_start :: "nat \<Rightarrow> string \<Rightarrow> string option" where
  "token_start 0 s = Some s"
| "token_start (Suc k) s =
     (case parse_mode s of
        None \<Rightarrow> None
      | Some (w, h, freq, depth, s1) \<Rightarrow>
          if deref (dropWhile Q_isspace s1) = CHR 0x00 then None
          else token_start k (dropWhile Q_isspace s1))"

text \<open>
  \<open>tokens_all_parse s\<close>: every token of the list parses, up to the end of the string.
\<close>

function tokens_all_parse :: "string \<Rightarrow> bool" where
  "tokens_all_parse s =
     (case parse_mode s of
        None \<Rightarrow> False
      | Some (w, h, freq, depth, s1) \<Rightarrow>
          if deref (dropWhile Q_isspace s1) = CHR 0x00 then True
          else tokens_all_parse (dropWhile Q_isspace s1))"
  by pat_completeness auto
termination
proof (relation "measure length")
  show "wf (measure length)" by simp
next
  fix s s1 :: string and w h freq depth :: nat and x2 y ya yb
  assume "parse_mode s = Some x2" "(w, y) = x2" "(h, ya) = y" "(freq, yb) = ya"
    "(depth, s1) = yb"
  then have "parse_mode s = Some (w, h, freq, depth, s1)" by simp
  then have "length s1 < length s" by (rule parse_mode_shorter)
  moreover have "length (dropWhile Q_isspace s1) \<le> length s1"
    by (rule length_dropWhile_le)
  ultimately show "(dropWhile Q_isspace s1, s) \<in> measure length" by simp
qed

declare tokens_all_parse.simps [simp del]

text \<open>
  The tokens of the mode-list grammar and their text, with the numbers in decimal, and
  the values \<open>strtoul\<close> reads from such a text (a number beyond \<open>ULONG_MAX\<close> reads as
  \<open>ULONG_MAX\<close>). \<open>out_of_range\<close> is the condition of the sanity check of
  \<open>VID_GetFullscreen\<close>.
\<close>

datatype mode_token =
    Desktop
  | WxH nat nat
  | WxH_freq nat nat nat
  | WxH_freq_depth nat nat nat nat
  | WxH_depth nat nat nat
  | WxH_depth_freq nat nat nat nat

fun token_text :: "mode_token \<Rightarrow> string" where
  "token_text Desktop = ''desktop''"
| "token_text (WxH w h) = dec w @ ''x'' @ dec h"
| "token_text (WxH_freq w h f) = dec w @ ''x'' @ dec h @ ''@'' @ dec f"
| "token_text (WxH_freq_depth w h f d) = dec w @ ''x'' @ dec h @ ''@'' @ dec f @ '':'' @ dec d"
| "token_text (WxH_depth w h d) = dec w @ ''x'' @ dec h @ '':'' @ dec d"
| "token_text (WxH_depth_freq w h d f) = dec w @ ''x'' @ dec h @ '':'' @ dec d @ ''@'' @ dec f"

fun token_values :: "mode_token \<Rightarrow> nat \<times> nat \<times> nat \<times> nat" where
  "token_values Desktop = (0, 0, 0, 0)"
| "token_values (WxH w h) = (min w ULONG_MAX, min h ULONG_MAX, 0, 0)"
| "token_values (WxH_freq w h f) = (min w ULONG_MAX, min h ULONG_MAX, min f ULONG_MAX, 0)"
| "token_values (WxH_freq_depth w h f d) =
     (min w ULONG_MAX, min h ULONG_MAX, min f ULONG_MAX, min d ULONG_MAX)"
| "token_values (WxH_depth w h d) = (min w ULONG_MAX, min h ULONG_MAX, 0, min d ULONG_MAX)"
| "token_values (WxH_depth_freq w h d f) =
     (min w ULONG_MAX, min h ULONG_MAX, min f ULONG_MAX, min d ULONG_MAX)"

definition out_of_range :: "nat \<times> nat \<times> nat \<times> nat \<Rightarrow> bool" where
  "out_of_range v =
     (case v of (w, h, freq, depth) \<Rightarrow>
        w < 320 \<or> 8192 < w \<or> h < 240 \<or> 8192 < h \<or> 1000 < freq \<or> 32 < depth)"

text \<open>
  The results of both parsers: the value returned, the rectangle \<open>*rc\<close>, for
  \<open>VID_GetFullscreen\<close> the integers behind \<open>freq_p\<close> and \<open>depth_p\<close> (\<open>None\<close> when the
  caller passed NULL), and the calls made. The globals read are parameters.
\<close>

definition VID_GetFullscreen ::
  "cvar_t option \<Rightarrow> cvar_t option \<Rightarrow> int option \<Rightarrow> int option
    \<Rightarrow> bool \<times> vrect_t \<times> int option \<times> int option \<times> call list" where
  "VID_GetFullscreen vid_modelist vid_fullscreen freq_p depth_p =
     (let rc = \<lparr>rc_x = 0, rc_y = 0, rc_width = 640, rc_height = 480\<rparr>;
          freq0 = map_option (\<lambda>_. 0) freq_p;
          depth0 = map_option (\<lambda>_. 0) depth_p
      in case vid_modelist of
           None \<Rightarrow> (False, rc, freq0, depth0, [])
         | Some modelist \<Rightarrow>
        (case vid_fullscreen of
           None \<Rightarrow> (False, rc, freq0, depth0, [])
         | Some fullscreen \<Rightarrow>
             (let s = dropWhile Q_isspace (cv_string modelist)
              in if deref s = CHR 0x00 then (False, rc, freq0, depth0, [])
                 else
                   (case walk_modes (cv_integer fullscreen) 1 s of
                      Malformed mode \<Rightarrow>
                        (False, rc, freq0, depth0,
                         [Com_DPrintf ''Mode %d is malformed\<newline>'' [ArgD mode]])
                    | Not_found \<Rightarrow>
                        (False, rc, freq0, depth0,
                         [Com_DPrintf ''Mode %d not found\<newline>''
                            [ArgD (cv_integer fullscreen)]])
                    | Selected w h freq depth \<Rightarrow>
                        if w < 320 \<or> w > 8192 \<or> h < 240 \<or> h > 8192 \<or> freq > 1000
                           \<or> depth > 32
                        then (False, rc, freq0, depth0,
                              [Com_DPrintf ''Mode %lux%lu@%lu:%lu doesn't look sane\<newline>''
                                 [ArgLU w, ArgLU h, ArgLU freq, ArgLU depth]])
                        else (True, rc\<lparr>rc_width := int w, rc_height := int h\<rparr>,
                              map_option (\<lambda>_. int freq) freq_p,
                              map_option (\<lambda>_. int depth) depth_p, [])))))"

definition VID_GetGeometry :: "cvar_t option \<Rightarrow> bool \<times> vrect_t \<times> call list" where
  "VID_GetGeometry vid_geometry =
     (let rc = \<lparr>rc_x = 100, rc_y = 100, rc_width = 1280, rc_height = 720\<rparr>
      in case vid_geometry of
           None \<Rightarrow> (False, rc, [])
         | Some geometry \<Rightarrow>
             if deref (cv_string geometry) = CHR 0x00 then (False, rc, [])
             else
               (let (w, s1) = strtoul (cv_string geometry)
                in if deref s1 \<noteq> CHR ''x'' \<and> deref s1 \<noteq> CHR ''X''
                   then (False, rc, [Com_DPrintf ''Geometry string is malformed\<newline>'' []])
                   else
                     (let (h, s2) = strtoul (tl s1);
                          (x, y) =
                            (if deref s2 = CHR ''+'' \<or> deref s2 = CHR ''-'' then
                               (let (x1, s3) = strtol s2
                                in if deref s3 = CHR ''+'' \<or> deref s3 = CHR ''-''
                                   then (x1, fst (strtol s3))
                                   else (x1, rc_y rc))
                             else (rc_x rc, rc_y rc))
                      in if w < 320 \<or> w > 8192 \<or> h < 240 \<or> h > 8192
                         then (False, rc,
                               [Com_DPrintf ''Geometry %lux%lu doesn't look sane\<newline>''
                                  [ArgLU w, ArgLU h]])
                         else (True,
                               \<lparr>rc_x = int_of_long x, rc_y = int_of_long y,
                                rc_width = int w, rc_height = int h\<rparr>, []))))"

text \<open>
  \<open>VID_SetGeometry\<close>: the call of \<open>Cvar_SetByVar(vid_geometry, buffer, FROM_CODE)\<close>, by
  which the variable store makes \<open>buffer\<close> the variable's string; no call when
  \<open>vid_geometry\<close> is NULL. \<open>max_qpath\<close> is the macro \<open>MAX_QPATH\<close>, the size of the buffer,
  which the sources at hand do not define.
\<close>

definition VID_SetGeometry :: "nat \<Rightarrow> cvar_t option \<Rightarrow> vrect_t \<Rightarrow> call list" where
  "VID_SetGeometry max_qpath vid_geometry rc =
     (case vid_geometry of
        None \<Rightarrow> []
      | Some geometry \<Rightarrow>
          [Cvar_SetByVar (cv_name geometry)
             (Q_snprintf max_qpath
                (fmt_d (rc_width rc) @ ''x'' @ fmt_d (rc_height rc)
                 @ fmt_plus_d (rc_x rc) @ fmt_plus_d (rc_y rc)))
             FROM_CODE])"

section \<open>Scaling helpers\<close>

text \<open>
  Modelled from the spec: the driver descriptor \<open>vid_driver_t\<close>, declared in a header that
  is not among the sources: "\<open>{ name, probe() \<rightarrow> bool, init(), shutdown(), set_mode(),
  pump_events(), get_mode_list() \<rightarrow> owned string, get_dpi_scale() \<rightarrow> int (optional) }\<close>". A
  function pointer is an option, \<open>None\<close> for NULL. The two pointers the module tests
  against NULL before the call, \<open>probe\<close> and \<open>get_dpi_scale\<close>, hold the function, which
  returns a value; the others hold the function's symbol.
\<close>

type_synonym fnptr = string

record vid_driver_t =
  vd_name :: "string option"
  vd_probe :: "(unit \<Rightarrow> bool) option"
  vd_init :: "fnptr option"
  vd_shutdown :: "fnptr option"
  vd_set_mode :: "fnptr option"
  vd_pump_events :: "fnptr option"
  vd_get_mode_list :: "fnptr option"
  vd_get_dpi_scale :: "(unit \<Rightarrow> int) option"

text \<open>
  Modelled from the spec: \<open>refcfg_t\<close>, the type of \<open>r_config\<close>, declared in a header that is
  not among the sources: the "current width, height, flags".
\<close>

record refcfg_t =
  cfg_width :: int
  cfg_height :: int
  cfg_flags :: int

definition get_auto_scale :: "refcfg_t \<Rightarrow> vid_driver_t \<Rightarrow> int" where
  "get_auto_scale r_config vid =
     (let scale =
            (if cfg_height r_config < cfg_width r_config then
               (if cfg_height r_config \<ge> 2160 then 4
                else if cfg_height r_config \<ge> 1080 then 2
                else 1)
             else
               (if cfg_width r_config \<ge> 3840 then 4
                else if cfg_width r_config \<ge> 1920 then 2
                else 1))
      in case vd_get_dpi_scale vid of
           Some get_dpi_scale \<Rightarrow> max scale (get_dpi_scale ())
         | None \<Rightarrow> scale)"

text \<open>
  The scale as the specification words it: from the width in landscape, from the height
  otherwise.
\<close>

definition auto_scale_by_larger_axis :: "refcfg_t \<Rightarrow> int" where
  "auto_scale_by_larger_axis r_config =
     (if cfg_height r_config < cfg_width r_config then
        (if cfg_width r_config \<ge> 3840 then 4
         else if cfg_width r_config \<ge> 1920 then 2
         else 1)
      else
        (if cfg_height r_config \<ge> 2160 then 4
         else if cfg_height r_config \<ge> 1080 then 2
         else 1))"

text \<open>
  The driver descriptor after \<open>memset(&vid, 0, sizeof(vid))\<close>: every member NULL.
\<close>

definition vid_zero :: vid_driver_t where
  "vid_zero = \<lparr>vd_name = None, vd_probe = None, vd_init = None, vd_shutdown = None,
     vd_set_mode = None, vd_pump_events = None, vd_get_mode_list = None,
     vd_get_dpi_scale = None\<rparr>"

text \<open>
  Modelled from the spec: \<open>Cvar_ClampValue(var, min, max)\<close> of the variable store, which
  "clamps the cvar to \<open>[1.0, 10.0]\<close>"; the value it returns. The \<open>float\<close>s of the source
  are the real numbers they stand for, and the division is the exact one.
\<close>

definition Cvar_ClampValue :: "cvar_t \<Rightarrow> real \<Rightarrow> real \<Rightarrow> real" where
  "Cvar_ClampValue var lo hi =
     (if cv_value var < lo then lo else if cv_value var > hi then hi else cv_value var)"

definition R_ClampScale :: "refcfg_t \<Rightarrow> vid_driver_t \<Rightarrow> cvar_t option \<Rightarrow> real" where
  "R_ClampScale r_config vid var =
     (case var of
        None \<Rightarrow> 1
      | Some v \<Rightarrow>
          if cv_value v \<noteq> 0 then 1 / Cvar_ClampValue v 1 10
          else 1 / real_of_int (get_auto_scale r_config vid))"

text \<open>
  The scale as the specification words it: the reciprocal of the automatic scale when the
  variable is null or zero, the reciprocal of the clamped value otherwise.
\<close>

definition clamp_scale_null_as_zero :: "refcfg_t \<Rightarrow> vid_driver_t \<Rightarrow> cvar_t option \<Rightarrow> real" where
  "clamp_scale_null_as_zero r_config vid var =
     (case var of
        None \<Rightarrow> 1 / real_of_int (get_auto_scale r_config vid)
      | Some v \<Rightarrow>
          if cv_value v = 0 then 1 / real_of_int (get_auto_scale r_config vid)
          else 1 / max 1 (min 10 (cv_value v)))"

section \<open>Loading and shutdown: the state\<close>

text \<open>
  Modelled from the spec: the enumerations \<open>ref_type_t\<close> (of which the module names
  \<open>REF_TYPE_NONE\<close>; the others stand for the rasterisation and the ray-tracing renderer)
  and the client's activity state (of which it names \<open>ACT_MINIMIZED\<close>), declared in headers
  that are not among the sources.
\<close>

datatype ref_type_t = REF_TYPE_NONE | REF_TYPE_GL | REF_TYPE_VKPT

datatype active_t = ACT_MINIMIZED | ACT_RESTORED | ACT_ACTIVATED

definition MODE_GEOMETRY :: int where
  "MODE_GEOMETRY = 1"

definition MODE_FULLSCREEN :: int where
  "MODE_FULLSCREEN = 2"

definition MODE_MODELIST :: int where
  "MODE_MODELIST = 4"

text \<open>
  The renderer's function pointers (\<open>R_Init\<close> to \<open>MOD_Reference\<close>, all NULL at program
  start) are a store from the pointer's name to its value.
\<close>

type_synonym renderer_t = "string \<Rightarrow> fnptr option"

definition renderer_entries :: "string list" where
  "renderer_entries =
     [''R_Init'', ''R_Shutdown'', ''R_BeginRegistration'', ''R_SetSky'',
      ''R_EndRegistration'', ''R_RenderFrame'', ''R_LightPoint'', ''R_ClearColor'',
      ''R_SetAlpha'', ''R_SetAlphaScale'', ''R_SetColor'', ''R_SetClipRect'',
      ''R_SetScale'', ''R_DrawChar'', ''R_DrawString'', ''R_DrawPic'',
      ''R_DrawStretchPic'', ''R_DrawKeepAspectPic'', ''R_DrawStretchRaw'',
      ''R_TileClear'', ''R_DrawFill8'', ''R_DrawFill32'', ''R_UpdateRawPic'',
      ''R_DiscardRawPic'', ''R_BeginFrame'', ''R_EndFrame'', ''R_ModeChanged'',
      ''R_AddDecal'', ''R_InterceptKey'', ''R_IsHDR'', ''R_SupportsDebugLines'',
      ''R_AddDebugText_'', ''IMG_Unload'', ''IMG_Load'', ''IMG_ReadPixels'',
      ''IMG_ReadPixelsHDR'', ''MOD_LoadMD2'', ''MOD_LoadMD3'', ''MOD_LoadIQM'',
      ''MOD_Reference'']"

text \<open>
  The variables of the module. The pointers to configuration variables are assigned by
  \<open>CL_InitRefresh\<close> before \<open>cls.ref_initialized\<close> is set and the functions of this part
  dereference them unguarded; the state holds the variable each one points to.
  \<open>vid_driver\<close> is the variable the local pointer of \<open>CL_InitRefresh\<close> points to.
\<close>

record refresh_state =
  cls_ref_initialized :: bool
  cls_ref_type :: ref_type_t
  cls_active :: active_t
  g_vid :: vid_driver_t
  g_vid_rtx :: cvar_t
  g_vid_geometry :: cvar_t
  g_vid_modelist :: cvar_t
  g_vid_fullscreen :: cvar_t
  g_underscore_vid_fullscreen :: cvar_t
  g_vid_display :: cvar_t
  g_vid_displaylist :: cvar_t
  g_vid_driver :: cvar_t
  g_mode_changed :: int
  g_cvar_modified :: "cvar_flag set"
  g_renderer :: renderer_t

text \<open>
  Calls of other subsystems (printing, memory, commands, view, screen, UI, effects,
  console) leave the variables above as they are. The entry points of the driver and of
  the renderer, called through a pointer, and \<open>CL_RestartRefresh\<close> may change them (a
  driver that sets a variable runs its \<open>changed\<close> callback): what each does to the state,
  and what it returns, is a parameter. So are the variable \<open>Cvar_Get\<close> returns for a
  name, the pointers the two registration functions store, and the build's macros.
\<close>

record externals =
  ext_pump_events :: "refresh_state \<Rightarrow> refresh_state"
  ext_set_mode :: "refresh_state \<Rightarrow> refresh_state"
  ext_get_mode_list :: "refresh_state \<Rightarrow> string"
  ext_R_Init :: "bool \<Rightarrow> refresh_state \<Rightarrow> ref_type_t \<times> refresh_state"
  ext_R_Shutdown :: "bool \<Rightarrow> refresh_state \<Rightarrow> refresh_state"
  ext_CL_RestartRefresh :: "bool \<Rightarrow> refresh_state \<Rightarrow> refresh_state"
  ext_Cvar_Get :: "string \<Rightarrow> string \<Rightarrow> cvar_flag list \<Rightarrow> cvar_t"
  ext_R_RegisterFunctionsGL :: "renderer_t \<Rightarrow> renderer_t"
  ext_R_RegisterFunctionsRTX :: "renderer_t \<Rightarrow> renderer_t"
  REF_GL :: bool
  REF_VKPT :: bool
  VID_GEOMETRY :: string

text \<open>
  Modelled from the spec: \<open>Cvar_Set\<close> and \<open>Cvar_Reset\<close> of the variable store. A variable
  set to the string of another takes its string and with it the "integer/float
  projections"; a variable set to \<open>"1"\<close> projects to 1; \<open>vid_driver\<close> is reset "to empty",
  its default, which projects to 0.
\<close>

definition cvar_set_from :: "cvar_t \<Rightarrow> cvar_t \<Rightarrow> cvar_t" where
  "cvar_set_from src var =
     var\<lparr>cv_string := cv_string src, cv_integer := cv_integer src, cv_value := cv_value src\<rparr>"

definition cvar_set_one :: "cvar_t \<Rightarrow> cvar_t" where
  "cvar_set_one var = var\<lparr>cv_string := ''1'', cv_integer := 1, cv_value := 1\<rparr>"

definition cvar_reset_empty :: "cvar_t \<Rightarrow> cvar_t" where
  "cvar_reset_empty var = var\<lparr>cv_string := [], cv_integer := 0, cv_value := 0\<rparr>"

section \<open>Loading and shutdown: the functions\<close>

text \<open>
  The three \<open>changed\<close> callbacks, called through the pointer a variable holds.
\<close>

fun run_changed :: "changed_cb \<Rightarrow> refresh_state \<Rightarrow> refresh_state" where
  "run_changed vid_geometry_changed s = s\<lparr>g_mode_changed := g_mode_changed s OR MODE_GEOMETRY\<rparr>"
| "run_changed vid_fullscreen_changed s =
     s\<lparr>g_mode_changed := g_mode_changed s OR MODE_FULLSCREEN\<rparr>"
| "run_changed vid_modelist_changed s = s\<lparr>g_mode_changed := g_mode_changed s OR MODE_MODELIST\<rparr>"

text \<open>
  \<open>CL_RunRefresh\<close>. The block \<open>if (mode_changed) { ... }\<close> is a definition of its own: it
  returns the state after \<open>mode_changed = 0\<close> and the calls it made.
\<close>

definition CL_RunRefresh_mode_changed ::
  "externals \<Rightarrow> refresh_state \<Rightarrow> refresh_state \<times> call list" where
  "CL_RunRefresh_mode_changed e s =
     (if g_mode_changed s \<noteq> 0 then
        (let (s1, calls) =
               (if g_mode_changed s AND MODE_FULLSCREEN \<noteq> 0 then
                  (let s1 = ext_set_mode e s
                   in if cv_integer (g_vid_fullscreen s1) \<noteq> 0 then
                        (s1\<lparr>g_underscore_vid_fullscreen :=
                              cvar_set_from (g_vid_fullscreen s1) (g_underscore_vid_fullscreen s1)\<rparr>,
                         [vid_set_mode,
                          Cvar_Set ''_vid_fullscreen'' (cv_string (g_vid_fullscreen s1))])
                      else (s1, [vid_set_mode]))
                else if cv_integer (g_vid_fullscreen s) \<noteq> 0 then
                  (if g_mode_changed s AND MODE_MODELIST \<noteq> 0
                   then (ext_set_mode e s, [vid_set_mode]) else (s, []))
                else
                  (if g_mode_changed s AND MODE_GEOMETRY \<noteq> 0
                   then (ext_set_mode e s, [vid_set_mode]) else (s, [])))
         in (s1\<lparr>g_mode_changed := 0\<rparr>, calls))
      else (s, []))"

definition CL_RunRefresh :: "externals \<Rightarrow> refresh_state \<Rightarrow> refresh_state \<times> call list" where
  "CL_RunRefresh e s =
     (if \<not> cls_ref_initialized s then (s, [])
      else
        (let s1 = ext_pump_events e s;
             (s2, calls2) = CL_RunRefresh_mode_changed e s1;
             (s3, calls3) =
               (if CVAR_REFRESH \<in> g_cvar_modified s2 then
                  (let r = ext_CL_RestartRefresh e True s2
                   in (r\<lparr>g_cvar_modified := g_cvar_modified r - {CVAR_REFRESH}\<rparr>,
                       [CL_RestartRefresh True]))
                else if CVAR_FILES \<in> g_cvar_modified s2 then
                  (let r = ext_CL_RestartRefresh e False s2
                   in (r\<lparr>g_cvar_modified := g_cvar_modified r - {CVAR_FILES}\<rparr>,
                       [CL_RestartRefresh False]))
                else (s2, []))
         in (s3, vid_pump_events # calls2 @ calls3)))"

text \<open>
  \<open>CL_ShutdownRefresh\<close>. \<open>detach_changed\<close> is the three assignments
  \<open>->changed = NULL\<close>.
\<close>

definition detach_changed :: "refresh_state \<Rightarrow> refresh_state" where
  "detach_changed s =
     s\<lparr>g_vid_geometry := (g_vid_geometry s)\<lparr>cv_changed := None\<rparr>,
       g_vid_fullscreen := (g_vid_fullscreen s)\<lparr>cv_changed := None\<rparr>,
       g_vid_modelist := (g_vid_modelist s)\<lparr>cv_changed := None\<rparr>\<rparr>"

definition CL_ShutdownRefresh ::
  "externals \<Rightarrow> refresh_state \<Rightarrow> refresh_state \<times> call list" where
  "CL_ShutdownRefresh e s =
     (if \<not> cls_ref_initialized s then (s, [])
      else
        (let s1 = detach_changed s;
             s2 = ext_R_Shutdown e True s1
         in (s2\<lparr>g_vid := vid_zero,
                cls_ref_initialized := False,
                cls_ref_type := REF_TYPE_NONE,
                cls_active := ACT_MINIMIZED\<rparr>,
             [V_Shutdown, SCR_Shutdown, UI_Shutdown, Cmd_RemoveCommand ''cleardebuglines'',
              R_Shutdown True, Z_LeakTest TAG_RENDERER])))"

text \<open>
  \<open>CL_InitRefresh\<close>, block by block. First the variables are fetched (the assignment of
  the completion generator of \<open>vid_driver\<close> has no part in what follows and is left out)
  and \<open>_vid_fullscreen\<close> is normalised.
\<close>

definition init_cvars :: "externals \<Rightarrow> refresh_state \<Rightarrow> refresh_state \<times> call list" where
  "init_cvars e s =
     (let unknown = CHR 0x22 # ''<unknown>'' @ CHR 0x22 # '' 0'';
          rtx = (if REF_VKPT e then ''1'' else ''0'')
      in (s\<lparr>g_vid_display := ext_Cvar_Get e ''vid_display'' ''0'' [CVAR_ARCHIVE, CVAR_REFRESH],
            g_vid_displaylist := ext_Cvar_Get e ''vid_displaylist'' unknown [CVAR_ROM],
            g_vid_rtx := ext_Cvar_Get e ''vid_rtx'' rtx [CVAR_REFRESH, CVAR_ARCHIVE],
            g_vid_driver := ext_Cvar_Get e ''vid_driver'' [] [CVAR_REFRESH],
            g_vid_fullscreen := ext_Cvar_Get e ''vid_fullscreen'' ''0'' [CVAR_ARCHIVE],
            g_underscore_vid_fullscreen :=
              ext_Cvar_Get e ''_vid_fullscreen'' ''1'' [CVAR_ARCHIVE],
            g_vid_geometry := ext_Cvar_Get e ''vid_geometry'' (VID_GEOMETRY e) [CVAR_ARCHIVE]\<rparr>,
          [Cvar_Get ''vid_display'' ''0'' [CVAR_ARCHIVE, CVAR_REFRESH],
           Cvar_Get ''vid_displaylist'' unknown [CVAR_ROM],
           Cvar_Get ''vid_rtx'' rtx [CVAR_REFRESH, CVAR_ARCHIVE],
           Cvar_Get ''vid_driver'' [] [CVAR_REFRESH],
           Cvar_Get ''vid_fullscreen'' ''0'' [CVAR_ARCHIVE],
           Cvar_Get ''_vid_fullscreen'' ''1'' [CVAR_ARCHIVE],
           Cvar_Get ''vid_geometry'' (VID_GEOMETRY e) [CVAR_ARCHIVE]]))"

definition normalize_fullscreen :: "refresh_state \<Rightarrow> refresh_state \<times> call list" where
  "normalize_fullscreen s =
     (if cv_integer (g_vid_fullscreen s) \<noteq> 0 then
        (s\<lparr>g_underscore_vid_fullscreen :=
             cvar_set_from (g_vid_fullscreen s) (g_underscore_vid_fullscreen s)\<rparr>,
         [Cvar_Set ''_vid_fullscreen'' (cv_string (g_vid_fullscreen s))])
      else if cv_integer (g_underscore_vid_fullscreen s) = 0 then
        (s\<lparr>g_underscore_vid_fullscreen := cvar_set_one (g_underscore_vid_fullscreen s)\<rparr>,
         [Cvar_Set ''_vid_fullscreen'' ''1''])
      else (s, []))"

text \<open>
  The registration of the renderer's functions, by the macros \<open>REF_GL\<close> and \<open>REF_VKPT\<close>.
  With both undefined the source does not compile; the last branch stands for no program.
\<close>

definition register_functions :: "externals \<Rightarrow> refresh_state \<Rightarrow> refresh_state \<times> call list" where
  "register_functions e s =
     (if REF_GL e \<and> REF_VKPT e then
        (if cv_integer (g_vid_rtx s) \<noteq> 0
         then (s\<lparr>g_renderer := ext_R_RegisterFunctionsRTX e (g_renderer s)\<rparr>,
               [R_RegisterFunctionsRTX])
         else (s\<lparr>g_renderer := ext_R_RegisterFunctionsGL e (g_renderer s)\<rparr>,
               [R_RegisterFunctionsGL]))
      else if REF_GL e then
        (s\<lparr>g_renderer := ext_R_RegisterFunctionsGL e (g_renderer s)\<rparr>, [R_RegisterFunctionsGL])
      else if REF_VKPT e then
        (s\<lparr>g_renderer := ext_R_RegisterFunctionsRTX e (g_renderer s)\<rparr>, [R_RegisterFunctionsRTX])
      else (s, []))"

text \<open>
  The selection of the driver. The registry \<open>vid_drivers\<close> is a parameter: the list of the
  descriptors before the terminating NULL (in the source, \<open>vid_sdl\<close> alone, defined
  elsewhere). \<open>first_named\<close> is the first loop: the value of \<open>i\<close> when it ends, the length
  of the registry when no name matches. \<open>strcmp\<close> finds a name equal when the descriptor
  has that name.
\<close>

fun first_named :: "string \<Rightarrow> vid_driver_t list \<Rightarrow> nat" where
  "first_named str [] = 0"
| "first_named str (d # ds) = (if vd_name d = Some str then 0 else Suc (first_named str ds))"

definition name_arg :: "vid_driver_t \<Rightarrow> print_arg" where
  "name_arg d = (case vd_name d of None \<Rightarrow> ArgNULL | Some n \<Rightarrow> ArgS n)"

fun print_driver_names :: "nat \<Rightarrow> vid_driver_t list \<Rightarrow> call list" where
  "print_driver_names j [] = []"
| "print_driver_names j (d # ds) =
     (if j \<noteq> 0 then [Com_Printf '', '' []] else [])
     @ Com_Printf ''%s'' [name_arg d] # print_driver_names (Suc j) ds"

text \<open>
  The fallback loop from index \<open>i\<close> on: the value of \<open>ref_type\<close> when it ends, the state
  and the calls. \<open>probe\<close> is called only where \<open>i \<noteq> tried\<close> and the pointer is not NULL.
\<close>

fun fallback_loop ::
  "externals \<Rightarrow> nat \<Rightarrow> vid_driver_t list \<Rightarrow> nat \<Rightarrow> refresh_state
    \<Rightarrow> ref_type_t \<times> refresh_state \<times> call list" where
  "fallback_loop e tried [] i s = (REF_TYPE_NONE, s, [])"
| "fallback_loop e tried (d # ds) i s =
     (if i = tried then fallback_loop e tried ds (Suc i) s
      else
        (case vd_probe d of
           None \<Rightarrow> fallback_loop e tried ds (Suc i) s
         | Some probe \<Rightarrow>
             if \<not> probe () then
               (let (ref_type, s', calls) = fallback_loop e tried ds (Suc i) s
                in (ref_type, s', vid_drivers_probe (vd_name d) # calls))
             else
               (let (ref_type, s1) = ext_R_Init e True (s\<lparr>g_vid := d\<rparr>)
                in if ref_type \<noteq> REF_TYPE_NONE
                   then (ref_type, s1, [vid_drivers_probe (vd_name d), R_Init True])
                   else
                     (let (ref_type', s', calls) = fallback_loop e tried ds (Suc i) s1
                      in (ref_type', s',
                          vid_drivers_probe (vd_name d) # R_Init True # calls)))))"

definition select_driver ::
  "externals \<Rightarrow> vid_driver_t list \<Rightarrow> refresh_state
    \<Rightarrow> ref_type_t \<times> refresh_state \<times> call list" where
  "select_driver e vid_drivers s =
     (let i = first_named (cv_string (g_vid_driver s)) vid_drivers;
          (ref_type, s1, calls1) =
            (if i < length vid_drivers then
               (let (r, s') = ext_R_Init e True (s\<lparr>g_vid := vid_drivers ! i\<rparr>)
                in (r, s', [R_Init True]))
             else (REF_TYPE_NONE, s, []));
          calls2 =
            (if \<not> i < length vid_drivers \<and> deref (cv_string (g_vid_driver s1)) \<noteq> CHR 0x00 then
               Com_Printf ''No such video driver: %s.\<newline>Available video drivers: ''
                 [ArgS (cv_string (g_vid_driver s1))]
               # print_driver_names 0 vid_drivers @ [Com_Printf ''.\<newline>'' []]
             else [])
      in if ref_type = REF_TYPE_NONE then
           (let (ref_type', s2, calls3) = fallback_loop e i vid_drivers 0 s1
            in (ref_type', s2\<lparr>g_vid_driver := cvar_reset_empty (g_vid_driver s2)\<rparr>,
                calls1 @ calls2 @ calls3 @ [Cvar_Reset (cv_name (g_vid_driver s2))]))
         else (ref_type, s1, calls1 @ calls2))"

text \<open>
  \<open>Com_Error(ERR_FATAL, ...)\<close> does not return: the function ends there, with the state
  as it is.
\<close>

datatype outcome = Returned | Fatal_error

definition CL_InitRefresh ::
  "externals \<Rightarrow> vid_driver_t list \<Rightarrow> refresh_state \<Rightarrow> outcome \<times> refresh_state \<times> call list" where
  "CL_InitRefresh e vid_drivers s =
     (if cls_ref_initialized s then (Returned, s, [])
      else
        (let (s1, calls1) = init_cvars e s;
             (s2, calls2) = normalize_fullscreen s1;
             (s3, calls3) = register_functions e s2;
             (ref_type, s4, calls4) = select_driver e vid_drivers s3;
             calls = calls1 @ calls2 @ Com_SetLastError ''No available video driver''
                     # calls3 @ calls4
         in if ref_type = REF_TYPE_NONE then
              (Fatal_error, s4,
               calls @ [Com_Error_ERR_FATAL ''Couldn't initialize refresh: %s''])
            else
              (let modelist = ext_get_mode_list e s4;
                   s5 = s4\<lparr>g_vid_modelist := ext_Cvar_Get e ''vid_modelist'' modelist []\<rparr>;
                   s6 = ext_set_mode e s5;
                   s7 = s6\<lparr>cls_ref_type := ref_type,
                           cls_ref_initialized := True,
                           g_vid_geometry :=
                             (g_vid_geometry s6)\<lparr>cv_changed := Some vid_geometry_changed\<rparr>,
                           g_vid_fullscreen :=
                             (g_vid_fullscreen s6)\<lparr>cv_changed := Some vid_fullscreen_changed\<rparr>,
                           g_vid_modelist :=
                             (g_vid_modelist s6)\<lparr>cv_changed := Some vid_modelist_changed\<rparr>,
                           g_mode_changed := 0\<rparr>
               in (Returned,
                   s7\<lparr>g_cvar_modified := g_cvar_modified s7 - {CVAR_FILES, CVAR_REFRESH}\<rparr>,
                   calls @
                   [vid_get_mode_list, Cvar_Get ''vid_modelist'' modelist [], Z_Free,
                    vid_set_mode, FX_Init, V_Init, SCR_Init, UI_Init, R_ClearDebugLines,
                    Cmd_AddCommand ''cleardebuglines'', R_InitDebugText, SCR_RegisterMedia,
                    Con_RegisterMedia]))))"

text \<open>
  The state in which \<open>CL_InitRefresh\<close> enters the selection of the driver.
\<close>

definition before_selection :: "externals \<Rightarrow> refresh_state \<Rightarrow> refresh_state" where
  "before_selection e s =
     fst (register_functions e (fst (normalize_fullscreen (fst (init_cvars e s)))))"

section \<open>A concrete scenario\<close>

text \<open>
  An initialised state with the renderer's functions registered, a driver by name and
  probe result, and externals that leave the state alone, with a renderer whose \<open>R_Init\<close>
  fails on the driver named \<open>B\<close>. The properties below are evaluated on them.
\<close>

definition example_cvar :: "string \<Rightarrow> string \<Rightarrow> int \<Rightarrow> cvar_t" where
  "example_cvar n str i =
     \<lparr>cv_name = n, cv_string = str, cv_integer = i, cv_value = real_of_int i, cv_changed = None\<rparr>"

definition example_driver :: "string \<Rightarrow> bool \<Rightarrow> vid_driver_t" where
  "example_driver n p =
     \<lparr>vd_name = Some n, vd_probe = Some (\<lambda>_. p), vd_init = Some (n @ ''_init''),
      vd_shutdown = Some (n @ ''_shutdown''), vd_set_mode = Some (n @ ''_set_mode''),
      vd_pump_events = Some (n @ ''_pump_events''),
      vd_get_mode_list = Some (n @ ''_get_mode_list''), vd_get_dpi_scale = None\<rparr>"

definition example_renderer :: renderer_t where
  "example_renderer =
     (\<lambda>entry. if entry \<in> set renderer_entries then Some (entry @ ''_GL'') else None)"

definition example_state :: "int \<Rightarrow> string \<Rightarrow> int \<Rightarrow> refresh_state" where
  "example_state pending fs_string fs_integer =
     \<lparr>cls_ref_initialized = True, cls_ref_type = REF_TYPE_GL, cls_active = ACT_ACTIVATED,
      g_vid = example_driver ''sdl'' True,
      g_vid_rtx = example_cvar ''vid_rtx'' ''0'' 0,
      g_vid_geometry = example_cvar ''vid_geometry'' ''1280x720+100+100'' 1280,
      g_vid_modelist = example_cvar ''vid_modelist'' ''desktop 640x480'' 0,
      g_vid_fullscreen = example_cvar ''vid_fullscreen'' fs_string fs_integer,
      g_underscore_vid_fullscreen = example_cvar ''_vid_fullscreen'' ''1'' 1,
      g_vid_display = example_cvar ''vid_display'' ''0'' 0,
      g_vid_displaylist = example_cvar ''vid_displaylist'' ''0'' 0,
      g_vid_driver = example_cvar ''vid_driver'' [] 0,
      g_mode_changed = pending, g_cvar_modified = {}, g_renderer = example_renderer\<rparr>"

definition example_externals :: externals where
  "example_externals =
     \<lparr>ext_pump_events = (\<lambda>s. s), ext_set_mode = (\<lambda>s. s),
      ext_get_mode_list = (\<lambda>s. ''desktop 640x480''),
      ext_R_Init = (\<lambda>total s.
         (if vd_name (g_vid s) = Some ''B'' then REF_TYPE_NONE else REF_TYPE_GL, s)),
      ext_R_Shutdown = (\<lambda>total s. s),
      ext_CL_RestartRefresh = (\<lambda>total s. s),
      ext_Cvar_Get = (\<lambda>n dflt flags. example_cvar n dflt 0),
      ext_R_RegisterFunctionsGL = (\<lambda>r. example_renderer),
      ext_R_RegisterFunctionsRTX = (\<lambda>r. example_renderer),
      REF_GL = True, REF_VKPT = True, VID_GEOMETRY = ''640x480''\<rparr>"

section \<open>Helper functions: properties\<close>

text \<open>Printing a number in decimal and scanning it again.\<close>

lemma isdigit_digit_char: "d < 10 \<Longrightarrow> isdigit (digit_char d)"
  by (simp add: isdigit_def digit_char_def)

lemma digit_val_digit_char: "d < 10 \<Longrightarrow> digit_val (digit_char d) = d"
  by (simp add: digit_val_def digit_char_def)

lemma dec_digits: "c \<in> set (dec n) \<Longrightarrow> isdigit c"
proof (induction n arbitrary: c rule: dec.induct)
  case (1 n)
  show ?case
  proof (cases "n < 10")
    case True
    with "1.prems" show ?thesis
      by (simp add: dec.simps [of n] isdigit_digit_char)
  next
    case False
    with "1.prems" "1.IH" show ?thesis
      by (auto simp: dec.simps [of n] isdigit_digit_char)
  qed
qed

lemma dec_nonempty: "dec n \<noteq> []"
  by (simp add: dec.simps [of n])

lemma dec_val_snoc: "dec_val (ds @ [c]) = 10 * dec_val ds + digit_val c"
  by (simp add: dec_val_def)

lemma dec_val_dec: "dec_val (dec n) = n"
proof (induction n rule: dec.induct)
  case (1 n)
  show ?case
  proof (cases "n < 10")
    case True
    then show ?thesis
      by (simp add: dec.simps [of n] dec_val_def digit_val_digit_char)
  next
    case False
    with "1.IH" show ?thesis
      by (simp add: dec.simps [of n] dec_val_snoc digit_val_digit_char)
  qed
qed

lemma dec_length: "n < 10 ^ k \<Longrightarrow> 0 < k \<Longrightarrow> length (dec n) \<le> k"
proof (induction k arbitrary: n)
  case 0
  then show ?case by simp
next
  case (Suc k)
  show ?case
  proof (cases "n < 10")
    case True
    then show ?thesis by (simp add: dec.simps [of n])
  next
    case False
    with Suc.prems have k: "0 < k" by (cases k) auto
    from Suc.prems have "n div 10 < 10 ^ k" by (simp add: less_mult_imp_div_less mult.commute)
    with Suc.IH k have "length (dec (n div 10)) \<le> k" by simp
    with False show ?thesis by (simp add: dec.simps [of n])
  qed
qed

lemma isdigit_deref_dec: "isdigit (deref (dec n @ r))"
proof -
  obtain c cs where "dec n = c # cs" using dec_nonempty [of n] by (cases "dec n") auto
  moreover from this have "isdigit c" using dec_digits [of c n] by simp
  ultimately show ?thesis by (simp add: deref_def)
qed

lemma not_digit_takeWhile: "\<not> isdigit (deref r) \<Longrightarrow> takeWhile isdigit r = []"
  by (cases r) (auto simp: deref_def)

lemma not_digit_dropWhile: "\<not> isdigit (deref r) \<Longrightarrow> dropWhile isdigit r = r"
  by (cases r) (auto simp: deref_def)

lemma takeWhile_dec: "\<not> isdigit (deref r) \<Longrightarrow> takeWhile isdigit (dec n @ r) = dec n"
  by (simp add: takeWhile_append2 dec_digits not_digit_takeWhile)

lemma dropWhile_dec: "\<not> isdigit (deref r) \<Longrightarrow> dropWhile isdigit (dec n @ r) = r"
  by (simp add: dropWhile_append2 dec_digits not_digit_dropWhile)

lemma digit_not_space: "isdigit c \<Longrightarrow> \<not> isspace c"
  by (auto simp: isdigit_def isspace_def)

lemma digit_not_sign: "isdigit c \<Longrightarrow> c \<noteq> CHR ''-'' \<and> c \<noteq> CHR ''+''"
  by (auto simp: isdigit_def)

lemma not_space_dropWhile: "\<not> isspace (deref r) \<Longrightarrow> dropWhile isspace r = r"
  by (cases r) (auto simp: deref_def)

lemma scan_number_dec:
  assumes "\<not> isdigit (deref r)"
  shows "scan_number (dec n @ r) = Some (False, n, r)"
proof -
  have d: "isdigit (deref (dec n @ r))" by (rule isdigit_deref_dec)
  then have "dropWhile isspace (dec n @ r) = dec n @ r"
    by (simp add: not_space_dropWhile digit_not_space)
  moreover from d have "deref (dec n @ r) \<noteq> CHR ''-''" "deref (dec n @ r) \<noteq> CHR ''+''"
    using digit_not_sign by blast+
  ultimately show ?thesis
    using assms
    by (simp add: scan_number_def takeWhile_dec dropWhile_dec dec_nonempty dec_val_dec)
qed

lemma scan_number_plus:
  assumes "\<not> isdigit (deref r)"
  shows "scan_number (CHR ''+'' # dec n @ r) = Some (False, n, r)"
  using assms
  by (simp add: scan_number_def isspace_def deref_def takeWhile_dec dropWhile_dec
      dec_nonempty dec_val_dec)

lemma scan_number_minus:
  assumes "\<not> isdigit (deref r)"
  shows "scan_number (CHR ''-'' # dec n @ r) = Some (True, n, r)"
  using assms
  by (simp add: scan_number_def isspace_def deref_def takeWhile_dec dropWhile_dec
      dec_nonempty dec_val_dec)

lemma strtoul_dec:
  "\<not> isdigit (deref r) \<Longrightarrow> strtoul (dec n @ r) = (min n ULONG_MAX, r)"
  by (simp add: strtoul_def scan_number_dec min_def)

lemma strtol_fmt_plus_d:
  assumes "\<not> isdigit (deref r)" "LONG_MIN \<le> i" "i \<le> LONG_MAX"
  shows "strtol (fmt_plus_d i @ r) = (i, r)"
  using assms
  by (auto simp: strtol_def fmt_plus_d_def scan_number_plus scan_number_minus Let_def)

lemma int_of_long_id: "- (2 ^ 31) \<le> v \<Longrightarrow> v < 2 ^ 31 \<Longrightarrow> int_of_long v = v"
  by (simp add: int_of_long_def sint_sbintrunc' signed_take_bit_int_eq_self_iff)


lemma deref_fmt_plus_d:
  "deref (fmt_plus_d i @ r) = CHR ''+'' \<or> deref (fmt_plus_d i @ r) = CHR ''-''"
  by (simp add: fmt_plus_d_def deref_def)

lemma not_digit_fmt_plus_d: "\<not> isdigit (deref (fmt_plus_d i @ r))"
  by (simp add: fmt_plus_d_def deref_def isdigit_def)

lemma fmt_plus_d_length:
  assumes "- (2 ^ 31) \<le> i" "i < 2 ^ 31"
  shows "length (fmt_plus_d i) \<le> 11"
proof -
  have "nat \<bar>i\<bar> < 10 ^ 10" using assms by simp
  then have "length (dec (nat \<bar>i\<bar>)) \<le> 10" by (rule dec_length) simp
  then show ?thesis by (auto simp: fmt_plus_d_def abs_if)
qed

lemma fmt_d_dim_length:
  assumes "0 \<le> i" "i \<le> 8192"
  shows "length (fmt_d i) \<le> 4"
proof -
  have "nat i < 10 ^ 4" using assms by simp
  then have "length (dec (nat i)) \<le> 4" by (rule dec_length) simp
  with assms show ?thesis by (simp add: fmt_d_def)
qed

lemma geometry_text_fits:
  assumes "0 \<le> W" "W \<le> 8192" "0 \<le> H" "H \<le> 8192"
    "- (2 ^ 31) \<le> X" "X < 2 ^ 31" "- (2 ^ 31) \<le> Y" "Y < 2 ^ 31" "32 \<le> max_qpath"
  shows "Q_snprintf max_qpath (fmt_d W @ ''x'' @ fmt_d H @ fmt_plus_d X @ fmt_plus_d Y)
    = fmt_d W @ ''x'' @ fmt_d H @ fmt_plus_d X @ fmt_plus_d Y"
proof -
  have "length (fmt_d W) \<le> 4" "length (fmt_d H) \<le> 4"
    using assms by (simp_all add: fmt_d_dim_length)
  moreover have "length (fmt_plus_d X) \<le> 11" "length (fmt_plus_d Y) \<le> 11"
    using assms by (simp_all add: fmt_plus_d_length)
  ultimately have "length (fmt_d W @ ''x'' @ fmt_d H @ fmt_plus_d X @ fmt_plus_d Y) \<le> 31"
    by simp
  with assms(9) show ?thesis by (simp add: Q_snprintf_def)
qed

lemma parse_geometry_text:
  assumes "320 \<le> W" "W \<le> 8192" "240 \<le> H" "H \<le> 8192"
    "- (2 ^ 31) \<le> X" "X < 2 ^ 31" "- (2 ^ 31) \<le> Y" "Y < 2 ^ 31"
  shows "VID_GetGeometry
      (Some (geometry\<lparr>cv_string := fmt_d W @ ''x'' @ fmt_d H @ fmt_plus_d X @ fmt_plus_d Y\<rparr>))
    = (True, \<lparr>rc_x = X, rc_y = Y, rc_width = W, rc_height = H\<rparr>, [])"
proof -
  define tY where "tY = fmt_plus_d Y @ []"
  define tX where "tX = fmt_plus_d X @ tY"
  define tH where "tH = dec (nat H) @ tX"
  define tx where "tx = CHR ''x'' # tH"
  define tW where "tW = dec (nat W) @ tx"
  have buf: "fmt_d W @ ''x'' @ fmt_d H @ fmt_plus_d X @ fmt_plus_d Y = tW"
    using assms by (simp add: tW_def tx_def tH_def tX_def tY_def fmt_d_def)
  have W: "strtoul tW = (nat W, tx)"
    using assms unfolding tW_def
    by (subst strtoul_dec) (simp_all add: tx_def deref_def isdigit_def ULONG_MAX_def)
  have H: "strtoul tH = (nat H, tX)"
    using assms unfolding tH_def
    by (subst strtoul_dec) (simp_all add: tX_def not_digit_fmt_plus_d ULONG_MAX_def)
  have X: "strtol tX = (X, tY)"
    using assms not_digit_fmt_plus_d [of Y "[]"] unfolding tX_def
    by (intro strtol_fmt_plus_d) (simp_all add: tY_def LONG_MIN_def LONG_MAX_def)
  have Y: "strtol tY = (Y, [])"
    using assms unfolding tY_def
    by (intro strtol_fmt_plus_d) (simp_all add: deref_def isdigit_def LONG_MIN_def LONG_MAX_def)
  have sX: "deref tX = CHR ''+'' \<or> deref tX = CHR ''-''"
    unfolding tX_def by (rule deref_fmt_plus_d)
  have sY: "deref tY = CHR ''+'' \<or> deref tY = CHR ''-''"
    unfolding tY_def by (rule deref_fmt_plus_d)
  have "isdigit (deref tW)" unfolding tW_def by (rule isdigit_deref_dec)
  then have nz: "deref tW \<noteq> CHR 0x00" by (auto simp: isdigit_def)
  have dx: "deref tx = CHR ''x''" "tl tx = tH" by (simp_all add: tx_def deref_def)
  have rng: "\<not> nat W < 320" "\<not> 8192 < nat W" "\<not> nat H < 240" "\<not> 8192 < nat H"
    using assms by linarith+
  show ?thesis
    unfolding buf VID_GetGeometry_def
    using nz W H X Y sX sY dx rng assms
    by (simp add: int_of_long_id)
qed


text \<open>
  C4. For all \<open>(W, H, X, Y)\<close> with \<open>320 \<le> W \<le> 8192\<close>, \<open>240 \<le> H \<le> 8192\<close> and \<open>X\<close>, \<open>Y\<close> in
  the 32-bit signed range, \<open>VID_SetGeometry\<close> hands \<open>Cvar_SetByVar\<close> the text of \<open>W\<close>, \<open>x\<close>,
  \<open>H\<close> and the explicitly signed \<open>X\<close> and \<open>Y\<close> (whole, in a buffer of at least 32
  characters), and \<open>VID_GetGeometry\<close> on a variable with that string succeeds and returns
  exactly \<open>(W, H, X, Y)\<close>.
\<close>

theorem geometry_roundtrip:
  assumes "320 \<le> W" "W \<le> 8192" "240 \<le> H" "H \<le> 8192"
    and "- (2 ^ 31) \<le> X" "X < 2 ^ 31" "- (2 ^ 31) \<le> Y" "Y < 2 ^ 31"
    and "32 \<le> max_qpath"
  shows "VID_SetGeometry max_qpath (Some geometry)
       \<lparr>rc_x = X, rc_y = Y, rc_width = W, rc_height = H\<rparr>
     = [Cvar_SetByVar (cv_name geometry)
          (fmt_d W @ ''x'' @ fmt_d H @ fmt_plus_d X @ fmt_plus_d Y) FROM_CODE]
   \<and> VID_GetGeometry
       (Some (geometry\<lparr>cv_string := fmt_d W @ ''x'' @ fmt_d H @ fmt_plus_d X @ fmt_plus_d Y\<rparr>))
     = (True, \<lparr>rc_x = X, rc_y = Y, rc_width = W, rc_height = H\<rparr>, [])"
proof
  have "Q_snprintf max_qpath (fmt_d W @ ''x'' @ fmt_d H @ fmt_plus_d X @ fmt_plus_d Y)
      = fmt_d W @ ''x'' @ fmt_d H @ fmt_plus_d X @ fmt_plus_d Y"
    using assms by (intro geometry_text_fits) simp_all
  then show "VID_SetGeometry max_qpath (Some geometry)
       \<lparr>rc_x = X, rc_y = Y, rc_width = W, rc_height = H\<rparr>
     = [Cvar_SetByVar (cv_name geometry)
          (fmt_d W @ ''x'' @ fmt_d H @ fmt_plus_d X @ fmt_plus_d Y) FROM_CODE]"
    by (simp add: VID_SetGeometry_def)
  show "VID_GetGeometry
       (Some (geometry\<lparr>cv_string := fmt_d W @ ''x'' @ fmt_d H @ fmt_plus_d X @ fmt_plus_d Y\<rparr>))
     = (True, \<lparr>rc_x = X, rc_y = Y, rc_width = W, rc_height = H\<rparr>, [])"
    using assms(1-8) by (rule parse_geometry_text)
qed

lemma fmt_examples:
  "fmt_d 1280 = ''1280''" "fmt_d 720 = ''720''" "fmt_plus_d 100 = ''+100''"
  "fmt_plus_d (- 50) = ''-50''"
  by (simp_all add: fmt_d_def fmt_plus_d_def dec.simps digit_char_def char_of_eq_iff)

theorem geometry_roundtrip_witness:
  "VID_SetGeometry 64 (Some (example_cvar ''vid_geometry'' ''640x480'' 640))
       \<lparr>rc_x = 100, rc_y = - 50, rc_width = 1280, rc_height = 720\<rparr>
     = [Cvar_SetByVar ''vid_geometry'' ''1280x720+100-50'' FROM_CODE]
   \<and> VID_GetGeometry (Some (example_cvar ''vid_geometry'' ''1280x720+100-50'' 640))
     = (True, \<lparr>rc_x = 100, rc_y = - 50, rc_width = 1280, rc_height = 720\<rparr>, [])"
  using geometry_roundtrip [of 1280 720 100 "- 50" 64 "example_cvar ''vid_geometry'' ''640x480'' 640"]
  by (simp add: fmt_examples example_cvar_def)

lemma walk_modes_never_selects:
  "sel < mode \<Longrightarrow> walk_modes sel mode s \<noteq> Selected w h freq depth"
proof (induction sel mode s rule: walk_modes.induct)
  case (1 sel mode s)
  show ?case
  proof (cases "parse_mode s")
    case None
    then show ?thesis by (simp add: walk_modes.simps [of sel mode s])
  next
    case (Some p)
    obtain w1 h1 f1 d1 s1 where p: "p = (w1, h1, f1, d1, s1)" by (cases p) auto
    show ?thesis
    proof (cases "deref (dropWhile Q_isspace s1) = CHR 0x00")
      case True
      with Some p "1.prems" show ?thesis by (simp add: walk_modes.simps [of sel mode s])
    next
      case False
      from "1.prems" have ne: "mode \<noteq> sel" "sel < mode + 1" by simp_all
      from "1.IH" [OF Some p [symmetric] refl refl refl ne(1) False ne(2)]
      have "walk_modes sel (mode + 1) (dropWhile Q_isspace s1) \<noteq> Selected w h freq depth" .
      with Some p False ne show ?thesis by (simp add: walk_modes.simps [of sel mode s])
    qed
  qed
qed


lemma walk_modes_counter:
  "walk_modes sel mode s = Malformed m \<Longrightarrow> mode \<le> m \<and> m \<le> mode + int (length s)"
proof (induction sel mode s rule: walk_modes.induct)
  case (1 sel mode s)
  show ?case
  proof (cases "parse_mode s")
    case None
    with "1.prems" show ?thesis by (simp add: walk_modes.simps [of sel mode s])
  next
    case (Some p)
    obtain w1 h1 f1 d1 s1 where p: "p = (w1, h1, f1, d1, s1)" by (cases p) auto
    from Some p have "length s1 < length s" by (simp add: parse_mode_shorter)
    moreover have "length (dropWhile Q_isspace s1) \<le> length s1"
      by (rule length_dropWhile_le)
    ultimately have shorter: "length (dropWhile Q_isspace s1) < length s" by simp
    from "1.prems" Some p have ne: "mode \<noteq> sel" "deref (dropWhile Q_isspace s1) \<noteq> CHR 0x00"
      and rec: "walk_modes sel (mode + 1) (dropWhile Q_isspace s1) = Malformed m"
      by (auto simp: walk_modes.simps [of sel mode s] split: if_splits)
    from "1.IH" [OF Some p [symmetric] refl refl refl ne rec] shorter
    show ?thesis by simp
  qed
qed

lemma walk_modes_not_found:
  "sel < mode \<Longrightarrow> tokens_all_parse s \<Longrightarrow> walk_modes sel mode s = Not_found"
proof (induction sel mode s rule: walk_modes.induct)
  case (1 sel mode s)
  from "1.prems"(2) obtain p where Some: "parse_mode s = Some p"
    by (cases "parse_mode s") (simp_all add: tokens_all_parse.simps [of s])
  obtain w1 h1 f1 d1 s1 where p: "p = (w1, h1, f1, d1, s1)" by (cases p) auto
  show ?case
  proof (cases "deref (dropWhile Q_isspace s1) = CHR 0x00")
    case True
    with Some p "1.prems" show ?thesis by (simp add: walk_modes.simps [of sel mode s])
  next
    case False
    from "1.prems" have ne: "mode \<noteq> sel" "sel < mode + 1" by simp_all
    from "1.prems"(2) Some p False have "tokens_all_parse (dropWhile Q_isspace s1)"
      by (simp add: tokens_all_parse.simps [of s])
    with "1.IH" [OF Some p [symmetric] refl refl refl ne(1) False ne(2)]
    have "walk_modes sel (mode + 1) (dropWhile Q_isspace s1) = Not_found" .
    with Some p False ne show ?thesis by (simp add: walk_modes.simps [of sel mode s])
  qed
qed

lemma walk_modes_token_start:
  "token_start k s = Some r \<Longrightarrow>
   walk_modes (mode + int k) mode s = walk_modes (mode + int k) (mode + int k) r"
proof (induction k arbitrary: s mode)
  case 0
  then show ?case by simp
next
  case (Suc k)
  from Suc.prems obtain p where Some: "parse_mode s = Some p"
    by (cases "parse_mode s") simp_all
  obtain w1 h1 f1 d1 s1 where p: "p = (w1, h1, f1, d1, s1)" by (cases p) auto
  from Suc.prems Some p have ne: "deref (dropWhile Q_isspace s1) \<noteq> CHR 0x00"
    and next_tok: "token_start k (dropWhile Q_isspace s1) = Some r"
    by (simp_all split: if_splits)
  define sel where "sel = mode + int (Suc k)"
  have "sel \<noteq> mode" by (simp add: sel_def)
  with Some p ne have "walk_modes sel mode s = walk_modes sel (mode + 1) (dropWhile Q_isspace s1)"
    by (simp add: walk_modes.simps [of sel mode s])
  also have "\<dots> = walk_modes sel sel r"
    using Suc.IH [OF next_tok, of "mode + 1"] by (simp add: sel_def add.assoc)
  finally show ?case by (simp add: sel_def)
qed

lemma walk_modes_desktop:
  "take 7 r = ''desktop'' \<Longrightarrow>
   walk_modes sel sel r =
     (if deref (drop 7 r) \<noteq> CHR 0x00 \<and> \<not> Q_isspace (deref (drop 7 r))
      then Malformed sel else Selected 0 0 0 0)"
  by (simp add: walk_modes.simps [of sel sel r] parse_mode_def)

lemma token_start_nonempty:
  "token_start k s = Some r \<Longrightarrow> take 7 r = ''desktop'' \<Longrightarrow> deref s \<noteq> CHR 0x00"
proof (cases k)
  case 0
  assume "token_start k s = Some r" "take 7 r = ''desktop''"
  with 0 have "take 7 s = ''desktop''" by simp
  then show ?thesis by (cases s) (auto simp: deref_def)
next
  case (Suc n)
  assume "token_start k s = Some r"
  with Suc obtain p where "parse_mode s = Some p"
    by (cases "parse_mode s") simp_all
  then have "s \<noteq> []"
    using parse_mode_shorter [of s] by (cases p) auto
  moreover have "parse_mode s = None" if "deref s = CHR 0x00"
  proof -
    from that have "take 7 s \<noteq> ''desktop''" by (cases s) (auto simp: deref_def)
    moreover from that have "scan_number s = None"
      by (cases s) (auto simp: scan_number_def deref_def isspace_def isdigit_def)
    ultimately show ?thesis
      using that by (simp add: parse_mode_def strtoul_def)
  qed
  ultimately show ?thesis using \<open>parse_mode s = Some p\<close> by auto
qed

text \<open>
  C1, as the code has it. For every mode list and every selection index (\<open>k + 1\<close>, from 1)
  that points at a token beginning with \<open>desktop\<close>, whatever the tokens before it,
  \<open>VID_GetFullscreen\<close> returns false and leaves the defaults: \<open>x = y = 0\<close>, 640x480,
  \<open>freq = depth = 0\<close>. The token \<open>desktop\<close> gives \<open>w = h = freq = depth = 0\<close>, which the
  sanity check turns down (\<open>w < 320\<close>); followed by anything but white space or the end,
  the token is malformed.
\<close>

theorem desktop_selection_fails:
  assumes "token_start k (dropWhile Q_isspace (cv_string modelist)) = Some r"
    and "take 7 r = ''desktop''"
    and "cv_integer fullscreen = int k + 1"
  shows "VID_GetFullscreen (Some modelist) (Some fullscreen) freq_p depth_p =
     (False, \<lparr>rc_x = 0, rc_y = 0, rc_width = 640, rc_height = 480\<rparr>,
      map_option (\<lambda>_. 0) freq_p, map_option (\<lambda>_. 0) depth_p,
      [if deref (drop 7 r) \<noteq> CHR 0x00 \<and> \<not> Q_isspace (deref (drop 7 r))
       then Com_DPrintf ''Mode %d is malformed\<newline>'' [ArgD (int k + 1)]
       else Com_DPrintf ''Mode %lux%lu@%lu:%lu doesn't look sane\<newline>''
              [ArgLU 0, ArgLU 0, ArgLU 0, ArgLU 0]])"
proof -
  let ?s = "dropWhile Q_isspace (cv_string modelist)"
  have ne: "deref ?s \<noteq> CHR 0x00"
    using assms(1,2) by (rule token_start_nonempty)
  have "walk_modes (1 + int k) 1 ?s = walk_modes (1 + int k) (1 + int k) r"
    using assms(1) by (rule walk_modes_token_start)
  also have "\<dots> = (if deref (drop 7 r) \<noteq> CHR 0x00 \<and> \<not> Q_isspace (deref (drop 7 r))
      then Malformed (1 + int k) else Selected 0 0 0 0)"
    using assms(2) by (rule walk_modes_desktop)
  finally have "walk_modes (cv_integer fullscreen) 1 ?s =
      (if deref (drop 7 r) \<noteq> CHR 0x00 \<and> \<not> Q_isspace (deref (drop 7 r))
       then Malformed (int k + 1) else Selected 0 0 0 0)"
    using assms(3) by (simp add: add.commute)
  with ne assms(3) show ?thesis
    by (simp add: VID_GetFullscreen_def)
qed

text \<open>
  C10. For every non-empty mode list whose tokens all parse, if the integer of
  \<open>vid_fullscreen\<close> is zero or negative, \<open>VID_GetFullscreen\<close> returns false with "Mode %d not
  found" (the whole list was walked) and the outputs keep the defaults 0,0,640x480 and
  \<open>freq = depth = 0\<close>; on no string does the counter, which starts at 1, select a token
  for such a selection.
\<close>

theorem nonpositive_selection_not_found:
  assumes "cv_integer fullscreen \<le> 0"
    and "deref (dropWhile Q_isspace (cv_string modelist)) \<noteq> CHR 0x00"
    and "tokens_all_parse (dropWhile Q_isspace (cv_string modelist))"
  shows "VID_GetFullscreen (Some modelist) (Some fullscreen) freq_p depth_p =
     (False, \<lparr>rc_x = 0, rc_y = 0, rc_width = 640, rc_height = 480\<rparr>,
      map_option (\<lambda>_. 0) freq_p, map_option (\<lambda>_. 0) depth_p,
      [Com_DPrintf ''Mode %d not found\<newline>'' [ArgD (cv_integer fullscreen)]])
    \<and> (\<forall>s mode w h freq depth. 1 \<le> mode \<longrightarrow>
          walk_modes (cv_integer fullscreen) mode s \<noteq> Selected w h freq depth)"
proof -
  have "walk_modes (cv_integer fullscreen) 1 (dropWhile Q_isspace (cv_string modelist))
      = Not_found"
    using assms(1,3) by (intro walk_modes_not_found) simp_all
  with assms(2) have "VID_GetFullscreen (Some modelist) (Some fullscreen) freq_p depth_p =
     (False, \<lparr>rc_x = 0, rc_y = 0, rc_width = 640, rc_height = 480\<rparr>,
      map_option (\<lambda>_. 0) freq_p, map_option (\<lambda>_. 0) depth_p,
      [Com_DPrintf ''Mode %d not found\<newline>'' [ArgD (cv_integer fullscreen)]])"
    by (simp add: VID_GetFullscreen_def)
  moreover have "walk_modes (cv_integer fullscreen) mode s \<noteq> Selected w h freq depth"
    if "1 \<le> mode" for s mode w h freq depth
    using assms(1) that by (intro walk_modes_never_selects) simp
  ultimately show ?thesis by blast
qed

text \<open>The inputs on which the parsers fail, one kind after the other.\<close>

lemma deref_Cons: "deref (c # s) = c"
  by (simp add: deref_def)

lemma digit_not_desktop: "isdigit (deref s) \<Longrightarrow> take 7 s \<noteq> ''desktop''"
  by (cases s) (auto simp: deref_def isdigit_def)

lemma dec_not_desktop: "take 7 (dec n @ r) \<noteq> ''desktop''"
  by (rule digit_not_desktop) (rule isdigit_deref_dec)

lemma strtoul_dec_Cons:
  "\<not> isdigit c \<Longrightarrow> strtoul (dec n @ c # r) = (min n ULONG_MAX, c # r)"
  by (rule strtoul_dec) (simp add: deref_Cons)

lemma end_of_token:
  assumes "deref rest = CHR 0x00 \<or> Q_isspace (deref rest)"
  shows "\<not> isdigit (deref rest)" "deref rest \<noteq> CHR ''@''" "deref rest \<noteq> CHR '':''"
  using assms by (auto simp: isdigit_def Q_isspace_def)

lemma parse_mode_token_text:
  assumes "deref rest = CHR 0x00 \<or> Q_isspace (deref rest)"
  shows "parse_mode (token_text t @ rest) =
     (case token_values t of (w, h, freq, depth) \<Rightarrow> Some (w, h, freq, depth, rest))"
proof -
  note e = end_of_token [OF assms]
  have nd: "\<not> isdigit (CHR ''x'')" "\<not> isdigit (CHR ''@'')" "\<not> isdigit (CHR '':'')"
    by (simp_all add: isdigit_def)
  show ?thesis
  proof (cases t)
    case Desktop
    with assms show ?thesis by (auto simp: parse_mode_def)
  next
    case (WxH w h)
    then show ?thesis
      using e nd
      by (simp add: parse_mode_def dec_not_desktop strtoul_dec_Cons strtoul_dec deref_Cons
          del: take_append)
  next
    case (WxH_freq w h f)
    then show ?thesis
      using e nd
      by (simp add: parse_mode_def dec_not_desktop strtoul_dec_Cons strtoul_dec deref_Cons
          del: take_append)
  next
    case (WxH_freq_depth w h f d)
    then show ?thesis
      using e nd
      by (simp add: parse_mode_def dec_not_desktop strtoul_dec_Cons strtoul_dec deref_Cons
          del: take_append)
  next
    case (WxH_depth w h d)
    then show ?thesis
      using e nd
      by (simp add: parse_mode_def dec_not_desktop strtoul_dec_Cons strtoul_dec deref_Cons
          del: take_append)
  next
    case (WxH_depth_freq w h d f)
    then show ?thesis
      using e nd
      by (simp add: parse_mode_def dec_not_desktop strtoul_dec_Cons strtoul_dec deref_Cons
          del: take_append)
  qed
qed

lemma walk_modes_reach:
  "token_start k s = Some r \<Longrightarrow> sel < mode \<or> mode + int k \<le> sel \<Longrightarrow>
   walk_modes sel mode s = walk_modes sel (mode + int k) r"
proof (induction k arbitrary: s mode)
  case 0
  then show ?case by simp
next
  case (Suc k)
  from Suc.prems(1) obtain p where Some: "parse_mode s = Some p"
    by (cases "parse_mode s") simp_all
  obtain w1 h1 f1 d1 s1 where p: "p = (w1, h1, f1, d1, s1)" by (cases p) auto
  from Suc.prems(1) Some p have ne: "deref (dropWhile Q_isspace s1) \<noteq> CHR 0x00"
    and next_tok: "token_start k (dropWhile Q_isspace s1) = Some r"
    by (simp_all split: if_splits)
  from Suc.prems(2) have "sel \<noteq> mode" and range: "sel < mode + 1 \<or> mode + 1 + int k \<le> sel"
    by auto
  with Some p ne have "walk_modes sel mode s = walk_modes sel (mode + 1) (dropWhile Q_isspace s1)"
    by (simp add: walk_modes.simps [of sel mode s])
  also have "\<dots> = walk_modes sel (mode + 1 + int k) r"
    using next_tok range by (rule Suc.IH)
  finally show ?case by (simp add: add.assoc)
qed

lemma walk_modes_past_end:
  "tokens_all_parse s \<Longrightarrow> token_start k s = None \<Longrightarrow>
   walk_modes (mode + int k) mode s = Not_found"
proof (induction k arbitrary: s mode)
  case 0
  then show ?case by simp
next
  case (Suc k)
  from Suc.prems(1) obtain p where Some: "parse_mode s = Some p"
    by (cases "parse_mode s") (simp_all add: tokens_all_parse.simps [of s])
  obtain w1 h1 f1 d1 s1 where p: "p = (w1, h1, f1, d1, s1)" by (cases p) auto
  define sel where "sel = mode + int (Suc k)"
  have ne: "sel \<noteq> mode" by (simp add: sel_def)
  show ?case
  proof (cases "deref (dropWhile Q_isspace s1) = CHR 0x00")
    case True
    with Some p ne have "walk_modes sel mode s = Not_found"
      by (simp add: walk_modes.simps [of sel mode s])
    then show ?thesis by (simp add: sel_def)
  next
    case False
    with Suc.prems Some p have "tokens_all_parse (dropWhile Q_isspace s1)"
      and "token_start k (dropWhile Q_isspace s1) = None"
      by (simp_all add: tokens_all_parse.simps [of s])
    then have "walk_modes (mode + 1 + int k) (mode + 1) (dropWhile Q_isspace s1) = Not_found"
      by (rule Suc.IH)
    moreover from Some p ne False
    have "walk_modes sel mode s = walk_modes sel (mode + 1) (dropWhile Q_isspace s1)"
      by (simp add: walk_modes.simps [of sel mode s])
    ultimately show ?thesis by (simp add: sel_def add.assoc)
  qed
qed

lemma parse_mode_end: "deref s = CHR 0x00 \<Longrightarrow> parse_mode s = None"
proof -
  assume a: "deref s = CHR 0x00"
  then have "take 7 s \<noteq> ''desktop''" by (cases s) (auto simp: deref_def)
  moreover from a have "scan_number s = None"
    by (cases s) (auto simp: scan_number_def deref_def isspace_def isdigit_def)
  ultimately show ?thesis using a by (simp add: parse_mode_def strtoul_def)
qed

lemma token_start_deref:
  "token_start k s = Some r \<Longrightarrow> deref r \<noteq> CHR 0x00 \<Longrightarrow> deref s \<noteq> CHR 0x00"
proof (cases k)
  case 0
  then show "token_start k s = Some r \<Longrightarrow> deref r \<noteq> CHR 0x00 \<Longrightarrow> deref s \<noteq> CHR 0x00"
    by simp
next
  case (Suc n)
  assume "token_start k s = Some r"
  with Suc have "parse_mode s \<noteq> None" by (cases "parse_mode s") simp_all
  then show "deref s \<noteq> CHR 0x00" using parse_mode_end [of s] by auto
qed

lemma deref_token_text: "deref (token_text t @ rest) \<noteq> CHR 0x00"
proof -
  have "isdigit (deref (token_text t @ rest)) \<or> deref (token_text t @ rest) = CHR ''d''"
    by (cases t) (simp_all add: isdigit_deref_dec deref_Cons)
  then show ?thesis by (auto simp: isdigit_def)
qed


lemma geometry_null:
  "VID_GetGeometry None = (False, \<lparr>rc_x = 100, rc_y = 100, rc_width = 1280, rc_height = 720\<rparr>, [])"
  by (simp add: VID_GetGeometry_def)

lemma geometry_empty:
  "deref (cv_string g) = CHR 0x00 \<Longrightarrow>
   VID_GetGeometry (Some g)
     = (False, \<lparr>rc_x = 100, rc_y = 100, rc_width = 1280, rc_height = 720\<rparr>, [])"
  by (simp add: VID_GetGeometry_def)

lemma geometry_malformed:
  "deref (cv_string g) \<noteq> CHR 0x00 \<Longrightarrow>
   deref (snd (strtoul (cv_string g))) \<noteq> CHR ''x'' \<Longrightarrow>
   deref (snd (strtoul (cv_string g))) \<noteq> CHR ''X'' \<Longrightarrow>
   VID_GetGeometry (Some g)
     = (False, \<lparr>rc_x = 100, rc_y = 100, rc_width = 1280, rc_height = 720\<rparr>,
        [Com_DPrintf ''Geometry string is malformed\<newline>'' []])"
  by (simp add: VID_GetGeometry_def split_beta)

lemma geometry_out_of_range:
  assumes "cv_string g = dec w @ ''x'' @ dec h @ rest"
    and "\<not> isdigit (deref rest)"
    and "w < 320 \<or> 8192 < w \<or> h < 240 \<or> 8192 < h"
  shows "VID_GetGeometry (Some g)
     = (False, \<lparr>rc_x = 100, rc_y = 100, rc_width = 1280, rc_height = 720\<rparr>,
        [Com_DPrintf ''Geometry %lux%lu doesn't look sane\<newline>''
           [ArgLU (min w ULONG_MAX), ArgLU (min h ULONG_MAX)]])"
proof -
  have s: "cv_string g = dec w @ CHR ''x'' # dec h @ rest" using assms(1) by simp
  have "isdigit (deref (cv_string g))" unfolding s by (rule isdigit_deref_dec)
  then have nz: "deref (cv_string g) \<noteq> CHR 0x00" by (auto simp: isdigit_def)
  have W: "strtoul (cv_string g) = (min w ULONG_MAX, CHR ''x'' # dec h @ rest)"
    unfolding s by (rule strtoul_dec_Cons) (simp add: isdigit_def)
  have H: "strtoul (dec h @ rest) = (min h ULONG_MAX, rest)"
    using assms(2) by (rule strtoul_dec)
  from assms(3) have "min w ULONG_MAX < 320 \<or> 8192 < min w ULONG_MAX
      \<or> min h ULONG_MAX < 240 \<or> 8192 < min h ULONG_MAX"
    by (auto simp: ULONG_MAX_def)
  with nz W H show ?thesis
    by (simp add: VID_GetGeometry_def deref_Cons split_beta)
qed

lemma geometry_true:
  "VID_GetGeometry vg = (True, rc, calls) \<Longrightarrow>
   320 \<le> rc_width rc \<and> rc_width rc \<le> 8192 \<and> 240 \<le> rc_height rc \<and> rc_height rc \<le> 8192
   \<and> calls = []"
  by (auto simp: VID_GetGeometry_def Let_def split_beta split: option.splits if_splits)

lemma geometry_false:
  "VID_GetGeometry vg = (False, rc, calls) \<Longrightarrow>
   rc = \<lparr>rc_x = 100, rc_y = 100, rc_width = 1280, rc_height = 720\<rparr>
   \<and> (calls = [] \<or> (\<exists>fmt args. calls = [Com_DPrintf fmt args]))
   \<and> (calls = [] \<longleftrightarrow>
        (case vg of None \<Rightarrow> True | Some g \<Rightarrow> deref (cv_string g) = CHR 0x00))"
  by (auto simp: VID_GetGeometry_def Let_def split_beta split: option.splits if_splits)

lemma fullscreen_null:
  "vid_modelist = None \<or> vid_fullscreen = None \<Longrightarrow>
   VID_GetFullscreen vid_modelist vid_fullscreen freq_p depth_p
     = (False, \<lparr>rc_x = 0, rc_y = 0, rc_width = 640, rc_height = 480\<rparr>,
        map_option (\<lambda>_. 0) freq_p, map_option (\<lambda>_. 0) depth_p, [])"
  by (auto simp: VID_GetFullscreen_def Let_def split: option.splits)

lemma fullscreen_blank:
  "deref (dropWhile Q_isspace (cv_string m)) = CHR 0x00 \<Longrightarrow>
   VID_GetFullscreen (Some m) (Some f) freq_p depth_p
     = (False, \<lparr>rc_x = 0, rc_y = 0, rc_width = 640, rc_height = 480\<rparr>,
        map_option (\<lambda>_. 0) freq_p, map_option (\<lambda>_. 0) depth_p, [])"
  by (simp add: VID_GetFullscreen_def)

lemma parse_mode_bad_separator:
  "take 7 r \<noteq> ''desktop'' \<Longrightarrow> deref (snd (strtoul r)) \<noteq> CHR ''x'' \<Longrightarrow>
   deref (snd (strtoul r)) \<noteq> CHR ''X'' \<Longrightarrow> parse_mode r = None"
  by (simp add: parse_mode_def split_beta)

lemma fullscreen_malformed:
  assumes "deref (dropWhile Q_isspace (cv_string m)) \<noteq> CHR 0x00"
    and "token_start k (dropWhile Q_isspace (cv_string m)) = Some r"
    and "take 7 r \<noteq> ''desktop''"
    and "deref (snd (strtoul r)) \<noteq> CHR ''x''" "deref (snd (strtoul r)) \<noteq> CHR ''X''"
    and "cv_integer f \<le> 0 \<or> int k < cv_integer f"
  shows "VID_GetFullscreen (Some m) (Some f) freq_p depth_p
     = (False, \<lparr>rc_x = 0, rc_y = 0, rc_width = 640, rc_height = 480\<rparr>,
        map_option (\<lambda>_. 0) freq_p, map_option (\<lambda>_. 0) depth_p,
        [Com_DPrintf ''Mode %d is malformed\<newline>'' [ArgD (int k + 1)]])"
proof -
  have "parse_mode r = None" using assms(3-5) by (rule parse_mode_bad_separator)
  then have "walk_modes (cv_integer f) (1 + int k) r = Malformed (1 + int k)"
    by (simp add: walk_modes.simps [of _ _ r])
  moreover have "walk_modes (cv_integer f) 1 (dropWhile Q_isspace (cv_string m))
      = walk_modes (cv_integer f) (1 + int k) r"
    using assms(2,6) by (intro walk_modes_reach) auto
  ultimately show ?thesis
    using assms(1) by (simp add: VID_GetFullscreen_def add.commute)
qed

lemma fullscreen_past_end:
  assumes "deref (dropWhile Q_isspace (cv_string m)) \<noteq> CHR 0x00"
    and "tokens_all_parse (dropWhile Q_isspace (cv_string m))"
    and "cv_integer f = int k + 1"
    and "token_start k (dropWhile Q_isspace (cv_string m)) = None"
  shows "VID_GetFullscreen (Some m) (Some f) freq_p depth_p
     = (False, \<lparr>rc_x = 0, rc_y = 0, rc_width = 640, rc_height = 480\<rparr>,
        map_option (\<lambda>_. 0) freq_p, map_option (\<lambda>_. 0) depth_p,
        [Com_DPrintf ''Mode %d not found\<newline>'' [ArgD (int k + 1)]])"
proof -
  have "walk_modes (1 + int k) 1 (dropWhile Q_isspace (cv_string m)) = Not_found"
    using assms(2,4) by (rule walk_modes_past_end)
  with assms(1,3) show ?thesis
    by (simp add: VID_GetFullscreen_def add.commute)
qed

lemma fullscreen_selected_token:
  assumes "token_start k (dropWhile Q_isspace (cv_string m)) = Some (token_text t @ rest)"
    and "deref rest = CHR 0x00 \<or> Q_isspace (deref rest)"
    and "cv_integer f = int k + 1"
  shows "VID_GetFullscreen (Some m) (Some f) freq_p depth_p =
     (case token_values t of (w, h, freq, depth) \<Rightarrow>
        if out_of_range (w, h, freq, depth) then
          (False, \<lparr>rc_x = 0, rc_y = 0, rc_width = 640, rc_height = 480\<rparr>,
           map_option (\<lambda>_. 0) freq_p, map_option (\<lambda>_. 0) depth_p,
           [Com_DPrintf ''Mode %lux%lu@%lu:%lu doesn't look sane\<newline>''
              [ArgLU w, ArgLU h, ArgLU freq, ArgLU depth]])
        else
          (True, \<lparr>rc_x = 0, rc_y = 0, rc_width = int w, rc_height = int h\<rparr>,
           map_option (\<lambda>_. int freq) freq_p, map_option (\<lambda>_. int depth) depth_p, []))"
proof -
  obtain w h freq depth where v: "token_values t = (w, h, freq, depth)"
    by (cases "token_values t") auto
  have ne: "deref (dropWhile Q_isspace (cv_string m)) \<noteq> CHR 0x00"
    using assms(1) deref_token_text by (rule token_start_deref)
  have "parse_mode (token_text t @ rest) = Some (w, h, freq, depth, rest)"
    using parse_mode_token_text [OF assms(2), of t] v by simp
  then have "walk_modes (1 + int k) (1 + int k) (token_text t @ rest) = Selected w h freq depth"
    by (simp add: walk_modes.simps [of _ _ "token_text t @ rest"])
  moreover have "walk_modes (1 + int k) 1 (dropWhile Q_isspace (cv_string m))
      = walk_modes (1 + int k) (1 + int k) (token_text t @ rest)"
    using assms(1) by (intro walk_modes_reach) auto
  ultimately have "walk_modes (cv_integer f) 1 (dropWhile Q_isspace (cv_string m))
      = Selected w h freq depth"
    using assms(3) by (simp add: add.commute)
  with ne v show ?thesis
    by (simp add: VID_GetFullscreen_def out_of_range_def)
qed

lemma fullscreen_true:
  "VID_GetFullscreen vid_modelist vid_fullscreen freq_p depth_p = (True, rc, fq, dq, calls) \<Longrightarrow>
   rc_x rc = 0 \<and> rc_y rc = 0
   \<and> 320 \<le> rc_width rc \<and> rc_width rc \<le> 8192 \<and> 240 \<le> rc_height rc \<and> rc_height rc \<le> 8192
   \<and> (case fq of None \<Rightarrow> freq_p = None | Some v \<Rightarrow> 0 \<le> v \<and> v \<le> 1000)
   \<and> (case dq of None \<Rightarrow> depth_p = None | Some v \<Rightarrow> 0 \<le> v \<and> v \<le> 32)
   \<and> calls = []"
  by (auto simp: VID_GetFullscreen_def Let_def
      split: option.splits if_splits mode_walk.splits)

lemma fullscreen_false:
  "VID_GetFullscreen vid_modelist vid_fullscreen freq_p depth_p = (False, rc, fq, dq, calls) \<Longrightarrow>
   rc = \<lparr>rc_x = 0, rc_y = 0, rc_width = 640, rc_height = 480\<rparr>
   \<and> fq = map_option (\<lambda>_. 0) freq_p \<and> dq = map_option (\<lambda>_. 0) depth_p
   \<and> (calls = [] \<or> (\<exists>fmt args. calls = [Com_DPrintf fmt args]))
   \<and> (calls = [] \<longleftrightarrow>
        (case vid_modelist of None \<Rightarrow> True
         | Some m \<Rightarrow>
             (case vid_fullscreen of None \<Rightarrow> True
              | Some f \<Rightarrow> deref (dropWhile Q_isspace (cv_string m)) = CHR 0x00)))"
  by (auto simp: VID_GetFullscreen_def Let_def
      split: option.splits if_splits mode_walk.splits)


text \<open>
  C7, as the code has it. \<open>VID_GetGeometry\<close> and \<open>VID_GetFullscreen\<close> return false and
  leave exactly the defaults filled in on entry (100,100,1280x720 for the geometry;
  0,0,640x480 and \<open>freq = depth = 0\<close> for the mode) on each kind of failing input: a NULL
  variable, an empty geometry string and an empty or blank mode list, with no message at
  all; a malformed separator after the width (in the geometry, or in a token the walk
  reaches), with "malformed"; a selection past the end of a list whose tokens all parse,
  with "not found"; an out-of-range width or height in a geometry text, and an
  out-of-range width, height, frequency or depth in the selected token, with "doesn't
  look sane". Whenever one of them returns false the outputs are the defaults and the
  only call is at most one \<open>Com_DPrintf\<close>, none exactly in the silent cases; whenever one
  returns true the values written are within the ranges.
\<close>

theorem parse_failure_keeps_defaults:
  "VID_GetGeometry None
     = (False, \<lparr>rc_x = 100, rc_y = 100, rc_width = 1280, rc_height = 720\<rparr>, [])
   \<and> (deref (cv_string g) = CHR 0x00 \<longrightarrow>
        VID_GetGeometry (Some g)
          = (False, \<lparr>rc_x = 100, rc_y = 100, rc_width = 1280, rc_height = 720\<rparr>, []))
   \<and> (deref (cv_string g) \<noteq> CHR 0x00
        \<and> deref (snd (strtoul (cv_string g))) \<noteq> CHR ''x''
        \<and> deref (snd (strtoul (cv_string g))) \<noteq> CHR ''X'' \<longrightarrow>
        VID_GetGeometry (Some g)
          = (False, \<lparr>rc_x = 100, rc_y = 100, rc_width = 1280, rc_height = 720\<rparr>,
             [Com_DPrintf ''Geometry string is malformed\<newline>'' []]))
   \<and> (cv_string g = dec w @ ''x'' @ dec h @ rest \<and> \<not> isdigit (deref rest)
        \<and> (w < 320 \<or> 8192 < w \<or> h < 240 \<or> 8192 < h) \<longrightarrow>
        VID_GetGeometry (Some g)
          = (False, \<lparr>rc_x = 100, rc_y = 100, rc_width = 1280, rc_height = 720\<rparr>,
             [Com_DPrintf ''Geometry %lux%lu doesn't look sane\<newline>''
                [ArgLU (min w ULONG_MAX), ArgLU (min h ULONG_MAX)]]))
   \<and> (VID_GetGeometry vid_geometry = (False, rc, calls) \<longrightarrow>
        rc = \<lparr>rc_x = 100, rc_y = 100, rc_width = 1280, rc_height = 720\<rparr>
        \<and> (calls = [] \<or> (\<exists>fmt args. calls = [Com_DPrintf fmt args]))
        \<and> (calls = [] \<longleftrightarrow>
             (case vid_geometry of None \<Rightarrow> True
              | Some v \<Rightarrow> deref (cv_string v) = CHR 0x00)))
   \<and> (VID_GetGeometry vid_geometry = (True, rc, calls) \<longrightarrow>
        320 \<le> rc_width rc \<and> rc_width rc \<le> 8192
        \<and> 240 \<le> rc_height rc \<and> rc_height rc \<le> 8192 \<and> calls = [])
   \<and> (vid_modelist = None \<or> vid_fullscreen = None \<longrightarrow>
        VID_GetFullscreen vid_modelist vid_fullscreen freq_p depth_p
          = (False, \<lparr>rc_x = 0, rc_y = 0, rc_width = 640, rc_height = 480\<rparr>,
             map_option (\<lambda>_. 0) freq_p, map_option (\<lambda>_. 0) depth_p, []))
   \<and> (deref (dropWhile Q_isspace (cv_string m)) = CHR 0x00 \<longrightarrow>
        VID_GetFullscreen (Some m) (Some f) freq_p depth_p
          = (False, \<lparr>rc_x = 0, rc_y = 0, rc_width = 640, rc_height = 480\<rparr>,
             map_option (\<lambda>_. 0) freq_p, map_option (\<lambda>_. 0) depth_p, []))
   \<and> (deref (dropWhile Q_isspace (cv_string m)) \<noteq> CHR 0x00
        \<and> token_start k (dropWhile Q_isspace (cv_string m)) = Some r
        \<and> take 7 r \<noteq> ''desktop''
        \<and> deref (snd (strtoul r)) \<noteq> CHR ''x'' \<and> deref (snd (strtoul r)) \<noteq> CHR ''X''
        \<and> (cv_integer f \<le> 0 \<or> int k < cv_integer f) \<longrightarrow>
        VID_GetFullscreen (Some m) (Some f) freq_p depth_p
          = (False, \<lparr>rc_x = 0, rc_y = 0, rc_width = 640, rc_height = 480\<rparr>,
             map_option (\<lambda>_. 0) freq_p, map_option (\<lambda>_. 0) depth_p,
             [Com_DPrintf ''Mode %d is malformed\<newline>'' [ArgD (int k + 1)]]))
   \<and> (deref (dropWhile Q_isspace (cv_string m)) \<noteq> CHR 0x00
        \<and> tokens_all_parse (dropWhile Q_isspace (cv_string m))
        \<and> cv_integer f = int k + 1
        \<and> token_start k (dropWhile Q_isspace (cv_string m)) = None \<longrightarrow>
        VID_GetFullscreen (Some m) (Some f) freq_p depth_p
          = (False, \<lparr>rc_x = 0, rc_y = 0, rc_width = 640, rc_height = 480\<rparr>,
             map_option (\<lambda>_. 0) freq_p, map_option (\<lambda>_. 0) depth_p,
             [Com_DPrintf ''Mode %d not found\<newline>'' [ArgD (int k + 1)]]))
   \<and> (token_start k (dropWhile Q_isspace (cv_string m)) = Some (token_text t @ rest')
        \<and> (deref rest' = CHR 0x00 \<or> Q_isspace (deref rest'))
        \<and> cv_integer f = int k + 1 \<longrightarrow>
        VID_GetFullscreen (Some m) (Some f) freq_p depth_p =
          (case token_values t of (tw, th, tfreq, tdepth) \<Rightarrow>
             if out_of_range (tw, th, tfreq, tdepth) then
               (False, \<lparr>rc_x = 0, rc_y = 0, rc_width = 640, rc_height = 480\<rparr>,
                map_option (\<lambda>_. 0) freq_p, map_option (\<lambda>_. 0) depth_p,
                [Com_DPrintf ''Mode %lux%lu@%lu:%lu doesn't look sane\<newline>''
                   [ArgLU tw, ArgLU th, ArgLU tfreq, ArgLU tdepth]])
             else
               (True, \<lparr>rc_x = 0, rc_y = 0, rc_width = int tw, rc_height = int th\<rparr>,
                map_option (\<lambda>_. int tfreq) freq_p, map_option (\<lambda>_. int tdepth) depth_p,
                [])))
   \<and> (VID_GetFullscreen vid_modelist vid_fullscreen freq_p depth_p
         = (False, rc', freq, depth, calls') \<longrightarrow>
        rc' = \<lparr>rc_x = 0, rc_y = 0, rc_width = 640, rc_height = 480\<rparr>
        \<and> freq = map_option (\<lambda>_. 0) freq_p \<and> depth = map_option (\<lambda>_. 0) depth_p
        \<and> (calls' = [] \<or> (\<exists>fmt args. calls' = [Com_DPrintf fmt args]))
        \<and> (calls' = [] \<longleftrightarrow>
             (case vid_modelist of None \<Rightarrow> True
              | Some v \<Rightarrow>
                  (case vid_fullscreen of None \<Rightarrow> True
                   | Some u \<Rightarrow> deref (dropWhile Q_isspace (cv_string v)) = CHR 0x00))))
   \<and> (VID_GetFullscreen vid_modelist vid_fullscreen freq_p depth_p
         = (True, rc', freq, depth, calls') \<longrightarrow>
        rc_x rc' = 0 \<and> rc_y rc' = 0
        \<and> 320 \<le> rc_width rc' \<and> rc_width rc' \<le> 8192
        \<and> 240 \<le> rc_height rc' \<and> rc_height rc' \<le> 8192
        \<and> (case freq of None \<Rightarrow> freq_p = None | Some v \<Rightarrow> 0 \<le> v \<and> v \<le> 1000)
        \<and> (case depth of None \<Rightarrow> depth_p = None | Some v \<Rightarrow> 0 \<le> v \<and> v \<le> 32)
        \<and> calls' = [])"
  apply (intro conjI)
  subgoal by (rule geometry_null)
  subgoal by (intro impI) (rule geometry_empty)
  subgoal by (intro impI, elim conjE) (rule geometry_malformed)
  subgoal by (intro impI, elim conjE) (rule geometry_out_of_range)
  subgoal by (intro impI) (rule geometry_false)
  subgoal by (intro impI) (rule geometry_true)
  subgoal by (intro impI) (rule fullscreen_null)
  subgoal by (intro impI) (rule fullscreen_blank)
  subgoal by (intro impI, elim conjE) (rule fullscreen_malformed)
  subgoal by (intro impI, elim conjE) (rule fullscreen_past_end)
  subgoal by (intro impI, elim conjE) (rule fullscreen_selected_token)
  subgoal by (intro impI) (rule fullscreen_false)
  subgoal by (intro impI) (rule fullscreen_true)
  done


lemmas eval_defs = parse_mode_def strtoul_def strtol_def scan_number_def isspace_def
  isdigit_def dec_val_def digit_val_def deref_def ULONG_MAX_def LONG_MAX_def LONG_MIN_def
  Q_isspace_def int_of_long_def

text \<open>
  C1 as stated fails on the list \<open>desktop\<close> with the selection 1: the call returns false
  and the rectangle is 640x480.
\<close>

theorem desktop_counterexample:
  "VID_GetFullscreen (Some (example_cvar ''vid_modelist'' ''desktop'' 0))
     (Some (example_cvar ''vid_fullscreen'' ''1'' 1)) (Some 60) (Some 32)
   = (False, \<lparr>rc_x = 0, rc_y = 0, rc_width = 640, rc_height = 480\<rparr>, Some 0, Some 0,
      [Com_DPrintf ''Mode %lux%lu@%lu:%lu doesn't look sane\<newline>''
         [ArgLU 0, ArgLU 0, ArgLU 0, ArgLU 0]])"
  by (simp add: VID_GetFullscreen_def example_cvar_def walk_modes.simps eval_defs)

lemma token_start_example:
  "token_start 1 ''640x480 desktop'' = Some ''desktop''"
  by (simp add: eval_defs)

theorem desktop_selection_fails_witness:
  "token_start 1 (dropWhile Q_isspace (cv_string (example_cvar ''vid_modelist'' ''640x480 desktop'' 0)))
     = Some ''desktop''
   \<and> VID_GetFullscreen (Some (example_cvar ''vid_modelist'' ''640x480 desktop'' 0))
       (Some (example_cvar ''vid_fullscreen'' ''2'' 2)) (Some 60) None
     = (False, \<lparr>rc_x = 0, rc_y = 0, rc_width = 640, rc_height = 480\<rparr>, Some 0, None,
        [Com_DPrintf ''Mode %lux%lu@%lu:%lu doesn't look sane\<newline>''
           [ArgLU 0, ArgLU 0, ArgLU 0, ArgLU 0]])"
  using desktop_selection_fails
    [of 1 "example_cvar ''vid_modelist'' ''640x480 desktop'' 0" "''desktop''"
        "example_cvar ''vid_fullscreen'' ''2'' 2" "Some 60" None]
    token_start_example
  by (simp add: example_cvar_def Q_isspace_def deref_def)

lemma tokens_all_parse_example: "tokens_all_parse ''640x480 800x600@75''"
  by (simp add: tokens_all_parse.simps eval_defs)

theorem nonpositive_selection_not_found_witness:
  "cv_integer (example_cvar ''vid_fullscreen'' ''0'' 0) \<le> 0
   \<and> tokens_all_parse
       (dropWhile Q_isspace (cv_string (example_cvar ''vid_modelist'' ''640x480 800x600@75'' 0)))
   \<and> VID_GetFullscreen (Some (example_cvar ''vid_modelist'' ''640x480 800x600@75'' 0))
       (Some (example_cvar ''vid_fullscreen'' ''0'' 0)) (Some 60) (Some 32)
     = (False, \<lparr>rc_x = 0, rc_y = 0, rc_width = 640, rc_height = 480\<rparr>, Some 0, Some 0,
        [Com_DPrintf ''Mode %d not found\<newline>'' [ArgD 0]])"
  using nonpositive_selection_not_found
    [of "example_cvar ''vid_fullscreen'' ''0'' 0"
        "example_cvar ''vid_modelist'' ''640x480 800x600@75'' 0" "Some 60" "Some 32"]
    tokens_all_parse_example
  by (simp add: example_cvar_def Q_isspace_def deref_def)

theorem parse_failure_keeps_defaults_witness:
  "VID_GetGeometry (Some (example_cvar ''vid_geometry'' ''100x100'' 100))
     = (False, \<lparr>rc_x = 100, rc_y = 100, rc_width = 1280, rc_height = 720\<rparr>,
        [Com_DPrintf ''Geometry %lux%lu doesn't look sane\<newline>'' [ArgLU 100, ArgLU 100]])
   \<and> VID_GetGeometry (Some (example_cvar ''vid_geometry'' ''9999x9999'' 9999))
     = (False, \<lparr>rc_x = 100, rc_y = 100, rc_width = 1280, rc_height = 720\<rparr>,
        [Com_DPrintf ''Geometry %lux%lu doesn't look sane\<newline>'' [ArgLU 9999, ArgLU 9999]])
   \<and> VID_GetGeometry (Some (example_cvar ''vid_geometry'' ''640 480'' 640))
     = (False, \<lparr>rc_x = 100, rc_y = 100, rc_width = 1280, rc_height = 720\<rparr>,
        [Com_DPrintf ''Geometry string is malformed\<newline>'' []])
   \<and> VID_GetFullscreen (Some (example_cvar ''vid_modelist'' ''640x480@9999'' 0))
       (Some (example_cvar ''vid_fullscreen'' ''1'' 1)) (Some 60) (Some 32)
     = (False, \<lparr>rc_x = 0, rc_y = 0, rc_width = 640, rc_height = 480\<rparr>, Some 0, Some 0,
        [Com_DPrintf ''Mode %lux%lu@%lu:%lu doesn't look sane\<newline>''
           [ArgLU 640, ArgLU 480, ArgLU 9999, ArgLU 0]])
   \<and> VID_GetFullscreen (Some (example_cvar ''vid_modelist'' ''640x480:64'' 0))
       (Some (example_cvar ''vid_fullscreen'' ''1'' 1)) (Some 60) (Some 32)
     = (False, \<lparr>rc_x = 0, rc_y = 0, rc_width = 640, rc_height = 480\<rparr>, Some 0, Some 0,
        [Com_DPrintf ''Mode %lux%lu@%lu:%lu doesn't look sane\<newline>''
           [ArgLU 640, ArgLU 480, ArgLU 0, ArgLU 64]])
   \<and> VID_GetFullscreen (Some (example_cvar ''vid_modelist'' ''640x480 800y600'' 0))
       (Some (example_cvar ''vid_fullscreen'' ''2'' 2)) (Some 60) (Some 32)
     = (False, \<lparr>rc_x = 0, rc_y = 0, rc_width = 640, rc_height = 480\<rparr>, Some 0, Some 0,
        [Com_DPrintf ''Mode %d is malformed\<newline>'' [ArgD 2]])
   \<and> VID_GetFullscreen (Some (example_cvar ''vid_modelist'' ''800x600@75'' 0))
       (Some (example_cvar ''vid_fullscreen'' ''5'' 5)) (Some 60) (Some 32)
     = (False, \<lparr>rc_x = 0, rc_y = 0, rc_width = 640, rc_height = 480\<rparr>, Some 0, Some 0,
        [Com_DPrintf ''Mode %d not found\<newline>'' [ArgD 5]])"
  using parse_failure_keeps_defaults
    [where g = "example_cvar ''vid_geometry'' ''100x100'' 100" and w = 100 and h = 100
       and rest = "[]"
       and m = "example_cvar ''vid_modelist'' ''640x480@9999'' 0"
       and f = "example_cvar ''vid_fullscreen'' ''1'' 1" and k = 0
       and t = "WxH_freq 640 480 9999" and rest' = "[]"
       and freq_p = "Some 60" and depth_p = "Some 32"]
    parse_failure_keeps_defaults
    [where g = "example_cvar ''vid_geometry'' ''9999x9999'' 9999" and w = 9999 and h = 9999
       and rest = "[]"
       and m = "example_cvar ''vid_modelist'' ''640x480:64'' 0"
       and f = "example_cvar ''vid_fullscreen'' ''1'' 1" and k = 0
       and t = "WxH_depth 640 480 64" and rest' = "[]"
       and freq_p = "Some 60" and depth_p = "Some 32"]
  by (simp add: VID_GetGeometry_def VID_GetFullscreen_def example_cvar_def walk_modes.simps
      eval_defs)

text \<open>
  C7 as stated fails on the empty string: both parsers return false there without any
  debug message.
\<close>

theorem silent_failure_counterexample:
  "VID_GetGeometry (Some (example_cvar ''vid_geometry'' [] 0))
     = (False, \<lparr>rc_x = 100, rc_y = 100, rc_width = 1280, rc_height = 720\<rparr>, [])
   \<and> VID_GetFullscreen (Some (example_cvar ''vid_modelist'' [] 0))
       (Some (example_cvar ''vid_fullscreen'' ''1'' 1)) (Some 60) (Some 32)
     = (False, \<lparr>rc_x = 0, rc_y = 0, rc_width = 640, rc_height = 480\<rparr>, Some 0, Some 0, [])"
  by (simp add: VID_GetGeometry_def VID_GetFullscreen_def example_cvar_def deref_def)

section \<open>Scaling helpers: properties\<close>

text \<open>
  C3, as the code has it. With no DPI-scale hint from the driver, \<open>get_auto_scale\<close> reads
  the smaller axis: in landscape (height < width) it returns 4 when height \<ge> 2160, 2 when
  1080 \<le> height < 2160 and 1 otherwise; in portrait or square it returns 4 when
  width \<ge> 3840, 2 when 1920 \<le> width < 3840 and 1 otherwise.
\<close>

theorem get_auto_scale_no_dpi:
  assumes "vd_get_dpi_scale vid = None"
  shows "get_auto_scale r_config vid =
     (if cfg_height r_config < cfg_width r_config then
        (if 2160 \<le> cfg_height r_config then 4
         else if 1080 \<le> cfg_height r_config \<and> cfg_height r_config < 2160 then 2
         else 1)
      else
        (if 3840 \<le> cfg_width r_config then 4
         else if 1920 \<le> cfg_width r_config \<and> cfg_width r_config < 3840 then 2
         else 1))"
  using assms by (simp add: get_auto_scale_def)

theorem get_auto_scale_no_dpi_witness:
  "vd_get_dpi_scale vid_zero = None
   \<and> get_auto_scale \<lparr>cfg_width = 3840, cfg_height = 2160, cfg_flags = 0\<rparr> vid_zero = 4
   \<and> get_auto_scale \<lparr>cfg_width = 1920, cfg_height = 1080, cfg_flags = 0\<rparr> vid_zero = 2
   \<and> get_auto_scale \<lparr>cfg_width = 1080, cfg_height = 1920, cfg_flags = 0\<rparr> vid_zero = 1"
  using get_auto_scale_no_dpi
      [of vid_zero "\<lparr>cfg_width = 3840, cfg_height = 2160, cfg_flags = 0\<rparr>"]
    get_auto_scale_no_dpi
      [of vid_zero "\<lparr>cfg_width = 1920, cfg_height = 1080, cfg_flags = 0\<rparr>"]
    get_auto_scale_no_dpi
      [of vid_zero "\<lparr>cfg_width = 1080, cfg_height = 1920, cfg_flags = 0\<rparr>"]
  by (simp add: vid_zero_def)

text \<open>
  C3 as stated fails on a 3840x1080 landscape display with no DPI hint: the claim gives 4
  (width \<ge> 3840), the code 2 (height 1080).
\<close>

theorem get_auto_scale_landscape_counterexample:
  "vd_get_dpi_scale vid_zero = None
   \<and> auto_scale_by_larger_axis \<lparr>cfg_width = 3840, cfg_height = 1080, cfg_flags = 0\<rparr> = 4
   \<and> get_auto_scale \<lparr>cfg_width = 3840, cfg_height = 1080, cfg_flags = 0\<rparr> vid_zero = 2"
  by (simp add: get_auto_scale_def auto_scale_by_larger_axis_def vid_zero_def)

text \<open>
  C9, as the code has it. \<open>R_ClampScale\<close> returns 1 for a null variable; for a variable
  whose value is zero it returns the reciprocal of \<open>get_auto_scale\<close>'s result; otherwise it
  returns the reciprocal of the value clamped to \<open>[1, 10]\<close>.
\<close>

theorem R_ClampScale_cases:
  "R_ClampScale r_config vid var =
     (case var of
        None \<Rightarrow> 1
      | Some v \<Rightarrow>
          if cv_value v = 0 then 1 / real_of_int (get_auto_scale r_config vid)
          else 1 / max 1 (min 10 (cv_value v)))"
  by (auto simp: R_ClampScale_def Cvar_ClampValue_def split: option.splits)

text \<open>
  C9 as stated fails for the null variable on a 3840x2160 display: the claim gives 1/4,
  the code 1.
\<close>

theorem R_ClampScale_null_counterexample:
  "R_ClampScale \<lparr>cfg_width = 3840, cfg_height = 2160, cfg_flags = 0\<rparr> vid_zero None = 1
   \<and> clamp_scale_null_as_zero \<lparr>cfg_width = 3840, cfg_height = 2160, cfg_flags = 0\<rparr>
        vid_zero None = 1 / 4"
  by (simp add: R_ClampScale_def clamp_scale_null_as_zero_def get_auto_scale_def vid_zero_def)

section \<open>Loading and shutdown: properties\<close>

lemma mode_bits [simp]:
  "MODE_GEOMETRY AND MODE_FULLSCREEN = 0" "MODE_GEOMETRY AND MODE_MODELIST = 0"
  "MODE_MODELIST AND MODE_FULLSCREEN = 0" "MODE_MODELIST AND MODE_GEOMETRY = 0"
  "MODE_GEOMETRY \<noteq> 0" "MODE_MODELIST \<noteq> 0"
  by (simp_all add: MODE_GEOMETRY_def MODE_FULLSCREEN_def MODE_MODELIST_def)

lemma mode_changed_calls_fullscreen:
  "g_mode_changed s AND MODE_FULLSCREEN \<noteq> 0 \<Longrightarrow>
   snd (CL_RunRefresh_mode_changed e s) =
     (if cv_integer (g_vid_fullscreen (ext_set_mode e s)) \<noteq> 0
      then [vid_set_mode, Cvar_Set ''_vid_fullscreen'' (cv_string (g_vid_fullscreen (ext_set_mode e s)))]
      else [vid_set_mode])"
  by (auto simp: CL_RunRefresh_mode_changed_def Let_def)

lemma mode_changed_calls_other:
  "g_mode_changed s AND MODE_FULLSCREEN = 0 \<Longrightarrow>
   snd (CL_RunRefresh_mode_changed e s) =
     (if cv_integer (g_vid_fullscreen s) \<noteq> 0
      then (if g_mode_changed s AND MODE_MODELIST \<noteq> 0 then [vid_set_mode] else [])
      else (if g_mode_changed s AND MODE_GEOMETRY \<noteq> 0 then [vid_set_mode] else []))"
  by (auto simp: CL_RunRefresh_mode_changed_def Let_def)

lemma CL_RunRefresh_calls:
  "cls_ref_initialized s \<Longrightarrow>
   set (snd (CL_RunRefresh e s)) \<inter> {vid_set_mode} =
   set (snd (CL_RunRefresh_mode_changed e (ext_pump_events e s))) \<inter> {vid_set_mode}"
  by (auto simp: CL_RunRefresh_def Let_def split_beta)

lemma CL_RunRefresh_calls_subset:
  "cls_ref_initialized s \<Longrightarrow>
   set (snd (CL_RunRefresh_mode_changed e (ext_pump_events e s))) \<subseteq> set (snd (CL_RunRefresh e s))"
  by (auto simp: CL_RunRefresh_def Let_def split_beta)

text \<open>
  C5. In one tick of \<open>CL_RunRefresh\<close> in which, when the pending mask is drained (after
  \<open>vid.pump_events()\<close>), the FULLSCREEN bit is clear: with \<open>vid_fullscreen\<close> non-zero and
  only the GEOMETRY bit set, and with \<open>vid_fullscreen\<close> zero and only the MODELIST bit set,
  \<open>CL_RunRefresh\<close> does not call \<open>vid.set_mode()\<close>. (What \<open>CL_RestartRefresh\<close> calls is
  not a call of \<open>CL_RunRefresh\<close>.)
\<close>

theorem geometry_or_modelist_alone_no_set_mode:
  assumes "g_mode_changed (ext_pump_events e s) AND MODE_FULLSCREEN = 0"
    and "cv_integer (g_vid_fullscreen (ext_pump_events e s)) \<noteq> 0
           \<and> g_mode_changed (ext_pump_events e s) = MODE_GEOMETRY
         \<or> cv_integer (g_vid_fullscreen (ext_pump_events e s)) = 0
           \<and> g_mode_changed (ext_pump_events e s) = MODE_MODELIST"
  shows "vid_set_mode \<notin> set (snd (CL_RunRefresh e s))"
proof (cases "cls_ref_initialized s")
  case False
  then show ?thesis by (simp add: CL_RunRefresh_def)
next
  case True
  from assms have "snd (CL_RunRefresh_mode_changed e (ext_pump_events e s)) = []"
    by (auto simp: mode_changed_calls_other)
  with CL_RunRefresh_calls [OF True, of e] show ?thesis by auto
qed

text \<open>
  C6. In one tick of \<open>CL_RunRefresh\<close> with \<open>ref_initialized\<close> set, whenever the FULLSCREEN
  bit is set in the mask that is drained, whatever the other bits, \<open>vid.set_mode()\<close> is
  called; and if \<open>vid_fullscreen\<close> is then non-zero, \<open>Cvar_Set\<close> is called to copy its
  string into \<open>_vid_fullscreen\<close>, which holds it when the block ends.
\<close>

theorem fullscreen_bit_calls_set_mode:
  assumes "cls_ref_initialized s"
    and "g_mode_changed (ext_pump_events e s) AND MODE_FULLSCREEN \<noteq> 0"
  shows "vid_set_mode \<in> set (snd (CL_RunRefresh e s))
    \<and> (cv_integer (g_vid_fullscreen (ext_set_mode e (ext_pump_events e s))) \<noteq> 0 \<longrightarrow>
         Cvar_Set ''_vid_fullscreen''
           (cv_string (g_vid_fullscreen (ext_set_mode e (ext_pump_events e s))))
           \<in> set (snd (CL_RunRefresh e s))
         \<and> cv_string (g_underscore_vid_fullscreen
              (fst (CL_RunRefresh_mode_changed e (ext_pump_events e s))))
           = cv_string (g_vid_fullscreen (ext_set_mode e (ext_pump_events e s))))"
proof -
  let ?s1 = "ext_pump_events e s"
  have calls: "set (snd (CL_RunRefresh_mode_changed e ?s1)) \<subseteq> set (snd (CL_RunRefresh e s))"
    using assms(1) by (rule CL_RunRefresh_calls_subset)
  have "vid_set_mode \<in> set (snd (CL_RunRefresh_mode_changed e ?s1))"
    using assms(2) by (simp add: mode_changed_calls_fullscreen)
  moreover have "cv_integer (g_vid_fullscreen (ext_set_mode e ?s1)) \<noteq> 0 \<Longrightarrow>
      Cvar_Set ''_vid_fullscreen'' (cv_string (g_vid_fullscreen (ext_set_mode e ?s1)))
        \<in> set (snd (CL_RunRefresh_mode_changed e ?s1))"
    using assms(2) by (simp add: mode_changed_calls_fullscreen)
  moreover have "cv_integer (g_vid_fullscreen (ext_set_mode e ?s1)) \<noteq> 0 \<Longrightarrow>
      cv_string (g_underscore_vid_fullscreen (fst (CL_RunRefresh_mode_changed e ?s1)))
      = cv_string (g_vid_fullscreen (ext_set_mode e ?s1))"
    using assms(2)
    by (auto simp: CL_RunRefresh_mode_changed_def Let_def cvar_set_from_def)
  ultimately show ?thesis using calls by blast
qed


theorem geometry_or_modelist_alone_no_set_mode_witness:
  "g_mode_changed (ext_pump_events example_externals (example_state MODE_GEOMETRY ''1'' 1))
     AND MODE_FULLSCREEN = 0
   \<and> cv_integer (g_vid_fullscreen
         (ext_pump_events example_externals (example_state MODE_GEOMETRY ''1'' 1))) \<noteq> 0
   \<and> g_mode_changed (ext_pump_events example_externals (example_state MODE_GEOMETRY ''1'' 1))
       = MODE_GEOMETRY
   \<and> vid_set_mode \<notin> set (snd (CL_RunRefresh example_externals
         (example_state MODE_GEOMETRY ''1'' 1)))"
  using geometry_or_modelist_alone_no_set_mode
    [of example_externals "example_state MODE_GEOMETRY ''1'' 1"]
  by (simp add: example_state_def example_externals_def example_cvar_def)

theorem fullscreen_bit_calls_set_mode_witness:
  "cls_ref_initialized (example_state (MODE_FULLSCREEN OR MODE_GEOMETRY) ''2'' 2)
   \<and> g_mode_changed (ext_pump_events example_externals
         (example_state (MODE_FULLSCREEN OR MODE_GEOMETRY) ''2'' 2)) AND MODE_FULLSCREEN \<noteq> 0
   \<and> snd (CL_RunRefresh example_externals
         (example_state (MODE_FULLSCREEN OR MODE_GEOMETRY) ''2'' 2))
       = [vid_pump_events, vid_set_mode, Cvar_Set ''_vid_fullscreen'' ''2'']
   \<and> cv_string (g_underscore_vid_fullscreen (fst (CL_RunRefresh_mode_changed example_externals
         (ext_pump_events example_externals
            (example_state (MODE_FULLSCREEN OR MODE_GEOMETRY) ''2'' 2))))) = ''2''"
  using fullscreen_bit_calls_set_mode
    [of "example_state (MODE_FULLSCREEN OR MODE_GEOMETRY) ''2'' 2" example_externals]
  by (simp add: example_state_def example_externals_def example_cvar_def
      CL_RunRefresh_def CL_RunRefresh_mode_changed_def cvar_set_from_def
      MODE_FULLSCREEN_def MODE_GEOMETRY_def)

text \<open>
  C2, as the code has it. After \<open>CL_ShutdownRefresh\<close> returns from an initialised state
  the driver slot \<open>vid\<close> is zeroed, \<open>ref_initialized\<close> is false, \<open>ref_type\<close> is
  \<open>REF_TYPE_NONE\<close> and the client is minimised. \<open>CL_ShutdownRefresh\<close> assigns none of the
  renderer's function pointers: each holds what \<open>R_Shutdown(true)\<close> left in it.
\<close>

theorem shutdown_zeroes_driver:
  assumes "cls_ref_initialized s"
  shows "g_vid (fst (CL_ShutdownRefresh e s)) = vid_zero
    \<and> \<not> cls_ref_initialized (fst (CL_ShutdownRefresh e s))
    \<and> cls_ref_type (fst (CL_ShutdownRefresh e s)) = REF_TYPE_NONE
    \<and> cls_active (fst (CL_ShutdownRefresh e s)) = ACT_MINIMIZED
    \<and> g_renderer (fst (CL_ShutdownRefresh e s))
        = g_renderer (ext_R_Shutdown e True (detach_changed s))"
  using assms by (simp add: CL_ShutdownRefresh_def Let_def)

theorem shutdown_zeroes_driver_witness:
  "cls_ref_initialized (example_state 0 ''0'' 0)
   \<and> g_vid (fst (CL_ShutdownRefresh example_externals (example_state 0 ''0'' 0))) = vid_zero
   \<and> \<not> cls_ref_initialized (fst (CL_ShutdownRefresh example_externals (example_state 0 ''0'' 0)))
   \<and> g_renderer (fst (CL_ShutdownRefresh example_externals (example_state 0 ''0'' 0)))
       = example_renderer"
  using shutdown_zeroes_driver [of "example_state 0 ''0'' 0" example_externals]
  by (simp add: example_state_def example_externals_def detach_changed_def)

text \<open>
  C2 as stated fails with a renderer whose \<open>R_Shutdown\<close> leaves the pointers alone:
  after \<open>CL_ShutdownRefresh\<close>, \<open>R_Init\<close> still points to the registered function.
\<close>

theorem shutdown_renderer_counterexample:
  "cls_ref_initialized (example_state 0 ''0'' 0)
   \<and> ''R_Init'' \<in> set renderer_entries
   \<and> g_renderer (fst (CL_ShutdownRefresh example_externals (example_state 0 ''0'' 0))) ''R_Init''
       = Some ''R_Init_GL''"
  by (simp add: CL_ShutdownRefresh_def example_state_def example_externals_def
      detach_changed_def example_renderer_def renderer_entries_def)

text \<open>
  \<open>CL_InitRefresh\<close> runs the selection of the driver on the state in which \<open>vid_driver\<close> is
  the variable \<open>Cvar_Get\<close> returned, and ends in the fatal error exactly when the selection
  ends with \<open>REF_TYPE_NONE\<close>.
\<close>

lemma vid_driver_register_functions:
  "g_vid_driver (fst (register_functions e s)) = g_vid_driver s"
  by (simp add: register_functions_def)

lemma vid_driver_normalize_fullscreen:
  "g_vid_driver (fst (normalize_fullscreen s)) = g_vid_driver s"
  by (simp add: normalize_fullscreen_def)

lemma vid_driver_init_cvars:
  "g_vid_driver (fst (init_cvars e s)) = ext_Cvar_Get e ''vid_driver'' [] [CVAR_REFRESH]"
  by (simp add: init_cvars_def Let_def)

lemma vid_driver_before_selection:
  "g_vid_driver (before_selection e s) = ext_Cvar_Get e ''vid_driver'' [] [CVAR_REFRESH]"
  by (simp only: before_selection_def vid_driver_register_functions
      vid_driver_normalize_fullscreen vid_driver_init_cvars)

lemma CL_InitRefresh_selection:
  assumes "\<not> cls_ref_initialized s"
  shows "\<exists>before after.
     snd (snd (CL_InitRefresh e vid_drivers s))
       = before @ snd (snd (select_driver e vid_drivers (before_selection e s))) @ after
     \<and> (fst (CL_InitRefresh e vid_drivers s) = Fatal_error
          \<longleftrightarrow> fst (select_driver e vid_drivers (before_selection e s)) = REF_TYPE_NONE)"
proof -
  obtain s1 c1 where a: "init_cvars e s = (s1, c1)" by (cases "init_cvars e s")
  obtain s2 c2 where b: "normalize_fullscreen s1 = (s2, c2)" by (cases "normalize_fullscreen s1")
  obtain s3 c3 where c: "register_functions e s2 = (s3, c3)" by (cases "register_functions e s2")
  obtain r s4 c4 where d: "select_driver e vid_drivers s3 = (r, s4, c4)"
    by (cases "select_driver e vid_drivers s3")
  have bs: "before_selection e s = s3" by (simp only: before_selection_def a b c fst_conv)
  let ?before = "c1 @ c2 @ Com_SetLastError ''No available video driver'' # c3"
  show ?thesis
  proof (cases "r = REF_TYPE_NONE")
    case True
    have "CL_InitRefresh e vid_drivers s =
        (Fatal_error, s4,
         (c1 @ c2 @ Com_SetLastError ''No available video driver'' # c3 @ c4)
         @ [Com_Error_ERR_FATAL ''Couldn't initialize refresh: %s''])"
      unfolding CL_InitRefresh_def
      by (simp only: assms a b c d True Let_def split_conv if_False if_True refl)
    then have "snd (snd (CL_InitRefresh e vid_drivers s)) =
        ?before @ c4 @ [Com_Error_ERR_FATAL ''Couldn't initialize refresh: %s'']"
      and "fst (CL_InitRefresh e vid_drivers s) = Fatal_error"
      by simp_all
    with True d bs show ?thesis
      by (intro exI [of _ ?before]
          exI [of _ "[Com_Error_ERR_FATAL ''Couldn't initialize refresh: %s'']"]) simp
  next
    case False
    have "\<exists>st after. CL_InitRefresh e vid_drivers s =
        (Returned, st,
         (c1 @ c2 @ Com_SetLastError ''No available video driver'' # c3 @ c4) @ after)"
      unfolding CL_InitRefresh_def
      by (simp only: assms a b c d False Let_def split_conv if_False if_True) blast
    then obtain st after where "CL_InitRefresh e vid_drivers s =
        (Returned, st,
         (c1 @ c2 @ Com_SetLastError ''No available video driver'' # c3 @ c4) @ after)"
      by blast
    then have "snd (snd (CL_InitRefresh e vid_drivers s)) = ?before @ c4 @ after"
      and "fst (CL_InitRefresh e vid_drivers s) = Returned"
      by simp_all
    with False d bs show ?thesis
      by (intro exI [of _ ?before] exI [of _ after]) simp
  qed
qed

text \<open>
  C8. The driver selection of \<open>CL_InitRefresh\<close> with \<open>vid_driver\<close> empty and the registry
  \<open>[A, B, C]\<close> of named drivers, where \<open>A\<close>'s probe returns false and those of \<open>B\<close> and
  \<open>C\<close> return true: \<open>A\<close> is probed and skipped, \<open>B\<close>'s descriptor is copied into \<open>vid\<close>
  and \<open>R_Init(true)\<close> is called; if it returns \<open>REF_TYPE_NONE\<close>, \<open>C\<close> is probed, copied and
  initialised in turn; and after the loop \<open>vid_driver\<close> is reset to empty.
\<close>

theorem fallback_selection:
  assumes "cv_string (g_vid_driver s) = []"
    and "vd_name A \<noteq> Some []" "vd_name B \<noteq> Some []" "vd_name C \<noteq> Some []"
    and "vd_probe A = Some pa" "\<not> pa ()"
    and "vd_probe B = Some pb" "pb ()"
    and "vd_probe C = Some pc" "pc ()"
  shows "select_driver e [A, B, C] s =
     (let rb = fst (ext_R_Init e True (s\<lparr>g_vid := B\<rparr>));
          sb = snd (ext_R_Init e True (s\<lparr>g_vid := B\<rparr>));
          rc = fst (ext_R_Init e True (sb\<lparr>g_vid := C\<rparr>));
          sc = snd (ext_R_Init e True (sb\<lparr>g_vid := C\<rparr>))
      in if rb \<noteq> REF_TYPE_NONE then
           (rb, sb\<lparr>g_vid_driver := cvar_reset_empty (g_vid_driver sb)\<rparr>,
            [vid_drivers_probe (vd_name A), vid_drivers_probe (vd_name B), R_Init True,
             Cvar_Reset (cv_name (g_vid_driver sb))])
         else
           (rc, sc\<lparr>g_vid_driver := cvar_reset_empty (g_vid_driver sc)\<rparr>,
            [vid_drivers_probe (vd_name A), vid_drivers_probe (vd_name B), R_Init True,
             vid_drivers_probe (vd_name C), R_Init True,
             Cvar_Reset (cv_name (g_vid_driver sc))]))"
proof -
  have i: "first_named (cv_string (g_vid_driver s)) [A, B, C] = 3"
    using assms by simp
  have d: "deref (cv_string (g_vid_driver s)) = CHR 0x00"
    using assms(1) by (simp add: deref_def)
  show ?thesis
    unfolding select_driver_def i
    using d assms(5-10)
    by (simp add: Let_def split_beta)
qed

theorem fallback_selection_witness:
  "cv_string (g_vid_driver (example_state 0 ''0'' 0)) = []
   \<and> vd_probe (example_driver ''A'' False) = Some (\<lambda>_. False)
   \<and> vd_probe (example_driver ''B'' True) = Some (\<lambda>_. True)
   \<and> vd_probe (example_driver ''C'' True) = Some (\<lambda>_. True)
   \<and> fst (ext_R_Init example_externals True
        ((example_state 0 ''0'' 0)\<lparr>g_vid := example_driver ''B'' True\<rparr>)) = REF_TYPE_NONE
   \<and> select_driver example_externals
        [example_driver ''A'' False, example_driver ''B'' True, example_driver ''C'' True]
        (example_state 0 ''0'' 0)
      = (REF_TYPE_GL,
         (example_state 0 ''0'' 0)\<lparr>g_vid := example_driver ''C'' True,
            g_vid_driver := cvar_reset_empty (example_cvar ''vid_driver'' [] 0)\<rparr>,
         [vid_drivers_probe (Some ''A''), vid_drivers_probe (Some ''B''), R_Init True,
          vid_drivers_probe (Some ''C''), R_Init True, Cvar_Reset ''vid_driver''])"
  using fallback_selection
    [of "example_state 0 ''0'' 0" "example_driver ''A'' False" "example_driver ''B'' True"
        "example_driver ''C'' True" "\<lambda>_. False" "\<lambda>_. True" "\<lambda>_. True" example_externals]
  by (simp add: example_state_def example_externals_def example_driver_def example_cvar_def)


end
